theory Spec2Isabelle
  imports Complex_Main
begin

section \<open>The audio controller of \<open>src/library/audioControlUtility.ts\<close>\<close>

text \<open>
  The hook \<open>useAudioControl\<close> keeps five mutable cells (\<open>useRef\<close>) and drives browser
  media elements through them. The embedding passes one record, \<open>world\<close>, through every
  operation: the five cells, the store of media elements the cells point into (elements are
  shared objects, and two cells may hold the same one), the \<open>visibilitychange\<close> listeners
  the hook leaves on the document, and the trace of caller callbacks that have run.

  What the browser does is not code of the repository. The embedding fixes it as follows.
  \<^item> A JavaScript number is a \<open>real\<close>, and the product with 0.2 is the exact one: the
    rounding of double arithmetic is left out. The only non-number that the control flow
    meets is the \<open>NaN\<close> a media element reports as its duration before its metadata is
    known, so \<open>duration\<close> is a \<open>real option\<close> and \<open>None\<close> stands for \<open>NaN\<close>
    (every comparison with it is false).
  \<^item> Assigning \<open>volume\<close> on a media element outside the range 0 to 1 raises
    (\<open>IndexSizeError\<close> in the HTML standard) and leaves the element as it was.
  \<^item> \<open>pause()\<close> sets \<open>paused\<close>; assigning \<open>currentTime\<close> seeks.
  \<^item> \<open>play()\<close> either rejects, leaving the element as it was, or clears \<open>paused\<close>,
    seeking to the start first when playback had ended. Which of the two happens is an
    input of the call (\<open>env\<close>), as is whether the page has an \<open>AudioContext\<close> and
    whether its \<open>resume()\<close> fails, and whether the user agent is a mobile one.
  \<^item> An \<open>async\<close> function is run to its end in one step: its \<open>await\<close>s are not
    interleaving points of the embedding.
  \<^item> A caller callback (\<open>onEnd\<close>) is opaque: running it appends its identity to a trace
    and touches nothing else.
\<close>

subsection \<open>Data\<close>

type_synonym handle = nat
type_synonym callback = nat

datatype preloadHint = Auto | Metadata | NoPreload

text \<open>
  The closure \<open>enhancedOnEnd\<close> that \<open>playAudio\<close> assigns to \<open>onended\<close>: it captures
  the call's \<open>onEnd\<close>, its \<open>priority\<close> and the element (through
  \<open>handleVisibilityChange\<close>).
\<close>

datatype endHandler = EndHandler "callback option" bool handle

text \<open>
  \<open>HTMLAudioElement\<close>, the fields the hook reads or writes. \<open>listeners\<close> counts the
  sets of four metadata listeners that \<open>configureAudio\<close> has attached.
\<close>

record audio =
  paused :: bool
  currentTime :: real
  duration :: "real option"
  volume :: real
  loop :: bool
  playbackRate :: real
  preload :: preloadHint
  onended :: "endHandler option"
  listeners :: nat

text \<open>
  \<open>AudioControlOptions\<close>: every field is optional in the source, so every field is an
  \<open>option\<close>, \<open>None\<close> for \<open>undefined\<close>. The fields \<open>volume\<close>, \<open>loop\<close>,
  \<open>preload\<close> and \<open>playbackRate\<close> carry the suffix \<open>_opt\<close>, the element has the plain
  names.
\<close>

record AudioControlOptions =
  stopPrevious :: "bool option"
  volume_opt :: "real option"
  loop_opt :: "bool option"
  onEnd :: "callback option"
  priority :: "bool option"
  ignorePriority :: "bool option"
  queueIfBlocked :: "bool option"
  preload_opt :: "preloadHint option"
  playbackRate_opt :: "real option"

text \<open>\<open>AudioMetadata\<close>; the fields carry the suffix \<open>_md\<close>.\<close>

record AudioMetadata =
  duration_md :: "real option"
  currentTime_md :: real
  isPlaying_md :: bool

text \<open>\<open>BackgroundMusicState\<close>; its \<open>volume\<close> is \<open>volume_bg\<close>.\<close>

record BackgroundMusicState =
  audioRef :: "handle option"
  volume_bg :: real
  isPlaying :: bool
  originalVolume :: real
  enableDucking :: bool

record world =
  previousAudioRef :: "handle option"
  priorityAudioRef :: "handle option"
  bgMusicRef :: BackgroundMusicState
  audioMetadataRef :: AudioMetadata
  priorityQueueRef :: "(handle \<times> AudioControlOptions) list"
  audios :: "handle \<Rightarrow> audio"
  visibilityListeners :: "(handle \<times> bool) list"
  onEndCalls :: "callback list"

record env =
  isMobile :: bool
  hasAudioContext :: bool
  resumeFails :: bool
  playFails :: bool

text \<open>How an operation that is not inside a \<open>try\<close> ends: normally, or by an exception
  that leaves the handler with the state reached so far.\<close>

datatype outcome = Done world | Threw world

text \<open>The state an outcome leaves, and whether it is an exception.\<close>

fun final :: "outcome \<Rightarrow> world" where
  "final (Done w) = w"
| "final (Threw w) = w"

fun threw :: "outcome \<Rightarrow> bool" where
  "threw (Done w) = False"
| "threw (Threw w) = True"

subsection \<open>The media element\<close>

definition withDefault :: "'a \<Rightarrow> 'a option \<Rightarrow> 'a" where
  "withDefault d x = (case x of None \<Rightarrow> d | Some v \<Rightarrow> v)"

definition clamp01 :: "real \<Rightarrow> real" where
  "clamp01 v = max 0 (min 1 v)"

definition assignVolume :: "real \<Rightarrow> audio \<Rightarrow> audio option" where
  "assignVolume v a = (if 0 \<le> v \<and> v \<le> 1 then Some (a\<lparr>volume := v\<rparr>) else None)"

definition mediaPlay :: "env \<Rightarrow> audio \<Rightarrow> audio option" where
  "mediaPlay e a =
     (if playFails e then None
      else Some (a\<lparr>paused := False,
                   currentTime := (case duration a of
                                     None \<Rightarrow> currentTime a
                                   | Some d \<Rightarrow> if d \<le> currentTime a then 0 else currentTime a)\<rparr>))"

definition setAudio :: "handle \<Rightarrow> audio \<Rightarrow> world \<Rightarrow> world" where
  "setAudio h a w = w\<lparr>audios := (audios w)(h := a)\<rparr>"

subsection \<open>The operations of the hook\<close>

text \<open>\<open>cleanupEventListeners\<close> calls \<open>removeEventListener\<close> with a function it has just
  made, which is no listener of the element: nothing is removed.\<close>

definition cleanupEventListeners :: "handle \<Rightarrow> world \<Rightarrow> world" where
  "cleanupEventListeners h w = w"

definition hasPriorityAudio :: "world \<Rightarrow> bool" where
  "hasPriorityAudio w =
     (case priorityAudioRef w of
        None \<Rightarrow> False
      | Some p \<Rightarrow> \<not> paused (audios w p) \<and>
          (case duration (audios w p) of
             None \<Rightarrow> False
           | Some d \<Rightarrow> currentTime (audios w p) < d))"

definition stopAudio :: "handle option \<Rightarrow> world \<Rightarrow> world" where
  "stopAudio r w =
     (case r of
        None \<Rightarrow> w
      | Some h \<Rightarrow>
          cleanupEventListeners h
            (setAudio h ((audios w h)\<lparr>paused := True, currentTime := 0\<rparr>) w))"

text \<open>\<open>setVolume\<close>, the exported setter with the clamp.\<close>

definition setVolume :: "handle option \<Rightarrow> real \<Rightarrow> world \<Rightarrow> world" where
  "setVolume r v w =
     (case r of
        None \<Rightarrow> w
      | Some h \<Rightarrow> setAudio h ((audios w h)\<lparr>volume := clamp01 v\<rparr>) w)"

definition duckBackgroundMusic :: "world \<Rightarrow> outcome" where
  "duckBackgroundMusic w =
     (case audioRef (bgMusicRef w) of
        None \<Rightarrow> Done w
      | Some m \<Rightarrow>
          if isPlaying (bgMusicRef w) \<and> enableDucking (bgMusicRef w) then
            (let w1 = w\<lparr>bgMusicRef := (bgMusicRef w)\<lparr>originalVolume := volume_bg (bgMusicRef w)\<rparr>\<rparr>
             in case assignVolume (originalVolume (bgMusicRef w1) * 0.2) (audios w1 m) of
                  None \<Rightarrow> Threw w1
                | Some a \<Rightarrow> Done (setAudio m a w1))
          else Done w)"

definition restoreBackgroundMusic :: "world \<Rightarrow> outcome" where
  "restoreBackgroundMusic w =
     (case audioRef (bgMusicRef w) of
        None \<Rightarrow> Done w
      | Some m \<Rightarrow>
          if isPlaying (bgMusicRef w) \<and> enableDucking (bgMusicRef w) then
            (case assignVolume (originalVolume (bgMusicRef w)) (audios w m) of
               None \<Rightarrow> Threw w
             | Some a \<Rightarrow> Done (setAudio m a w))
          else Done w)"

definition playBackgroundMusic ::
    "env \<Rightarrow> handle option \<Rightarrow> real option \<Rightarrow> bool option \<Rightarrow> world \<Rightarrow> world" where
  "playBackgroundMusic e r volume' enableDucking' w =
     (case r of
        None \<Rightarrow> w
      | Some h \<Rightarrow>
          (let vol = withDefault 1 volume';
              ducking = withDefault True enableDucking';
              w1 = (case audioRef (bgMusicRef w) of
                      None \<Rightarrow> w
                    | Some m \<Rightarrow> stopAudio (Some m) w);
              w2 = setAudio h ((audios w1 h)\<lparr>loop := True\<rparr>) w1;
              normalizedVolume = clamp01 vol;
              shouldDuck = (hasPriorityAudio w2 \<and> ducking);
              initialVolume = (if shouldDuck then normalizedVolume * 0.2 else normalizedVolume)
          in (case assignVolume initialVolume (audios w2 h) of
                None \<Rightarrow> w2
              | Some a \<Rightarrow>
                  (let w3 = setAudio h
                              (a\<lparr>preload := (if isMobile e then Metadata else Auto)\<rparr>) w2
                   in (case mediaPlay e (audios w3 h) of
                         None \<Rightarrow> w3
                       | Some a' \<Rightarrow>
                           (setAudio h a' w3)
                             \<lparr>bgMusicRef :=
                                \<lparr>audioRef = Some h, volume_bg = initialVolume,
                                 isPlaying = True, originalVolume = normalizedVolume,
                                 enableDucking = ducking\<rparr>\<rparr>)))))"

definition stopBackgroundMusic :: "world \<Rightarrow> world" where
  "stopBackgroundMusic w =
     (case audioRef (bgMusicRef w) of
        None \<Rightarrow> w
      | Some m \<Rightarrow>
          (let w1 = stopAudio (Some m) w
           in w1\<lparr>bgMusicRef := (bgMusicRef w1)\<lparr>isPlaying := False\<rparr>\<rparr>))"

definition setBackgroundMusicVolume :: "real \<Rightarrow> world \<Rightarrow> outcome" where
  "setBackgroundMusicVolume vol w =
     (case audioRef (bgMusicRef w) of
        None \<Rightarrow> Done w
      | Some m \<Rightarrow>
          (let normalizedVolume = clamp01 vol;
              w1 = w\<lparr>bgMusicRef := (bgMusicRef w)\<lparr>originalVolume := normalizedVolume\<rparr>\<rparr>;
              finalVolume = (if hasPriorityAudio w1 \<and> enableDucking (bgMusicRef w1)
                             then normalizedVolume * 0.2 else normalizedVolume);
              w2 = w1\<lparr>bgMusicRef := (bgMusicRef w1)\<lparr>volume_bg := finalVolume\<rparr>\<rparr>
          in (case assignVolume finalVolume (audios w2 m) of
                None \<Rightarrow> Threw w2
              | Some a \<Rightarrow> Done (setAudio m a w2))))"

definition setBackgroundMusicDucking :: "bool \<Rightarrow> world \<Rightarrow> outcome" where
  "setBackgroundMusicDucking ducking w =
     (case audioRef (bgMusicRef w) of
        None \<Rightarrow> Done w
      | Some m \<Rightarrow>
          (let w1 = w\<lparr>bgMusicRef := (bgMusicRef w)\<lparr>enableDucking := ducking\<rparr>\<rparr>
           in if \<not> ducking \<and> hasPriorityAudio w1 then
               (case assignVolume (originalVolume (bgMusicRef w1)) (audios w1 m) of
                  None \<Rightarrow> Threw w1
                | Some a \<Rightarrow> Done (setAudio m a w1))
             else if ducking \<and> hasPriorityAudio w1 then
               (case assignVolume (originalVolume (bgMusicRef w1) * 0.2) (audios w1 m) of
                  None \<Rightarrow> Threw w1
                | Some a \<Rightarrow> Done (setAudio m a w1))
             else Done w1))"

text \<open>\<open>configureAudio\<close>: the preload hint, the playback rate when the option is truthy
  (given and not 0), and one more set of metadata listeners. What it writes to
  \<open>dataset.eventListeners\<close> is never read.\<close>

definition configureAudio :: "env \<Rightarrow> handle \<Rightarrow> AudioControlOptions \<Rightarrow> world \<Rightarrow> world" where
  "configureAudio e h options w =
     (let w0 = cleanupEventListeners h w;
          a1 = (audios w0 h)\<lparr>preload :=
                  (if isMobile e then Metadata else withDefault Auto (preload_opt options))\<rparr>;
          a2 = (case playbackRate_opt options of
                  None \<Rightarrow> a1
                | Some r \<Rightarrow> if r \<noteq> 0 then a1\<lparr>playbackRate := r\<rparr> else a1);
          a3 = a2\<lparr>listeners := Suc (listeners a2)\<rparr>
      in setAudio h a3 w0)"

text \<open>
  \<open>playAudio\<close>. The result is the boolean the promise resolves to and the state left
  behind. Everything after the priority check is inside the source's \<open>try\<close>, whose
  \<open>catch\<close> returns \<open>false\<close> with the state reached so far.
\<close>

definition playAudio ::
    "env \<Rightarrow> handle option \<Rightarrow> AudioControlOptions \<Rightarrow> world \<Rightarrow> bool \<times> world" where
  "playAudio e newAudioRef options w =
     (case newAudioRef of
        None \<Rightarrow> (False, w)
      | Some h \<Rightarrow>
          (let stopPrevious' = withDefault True (stopPrevious options);
              volume' = withDefault 1 (volume_opt options);
              loop' = withDefault False (loop_opt options);
              priority' = withDefault False (priority options);
              ignorePriority' = withDefault False (ignorePriority options);
              queueIfBlocked' = withDefault False (queueIfBlocked options)
          in
          if \<not> ignorePriority' \<and> hasPriorityAudio w \<and> \<not> priority' then
            (False,
             if queueIfBlocked'
             then w\<lparr>priorityQueueRef := priorityQueueRef w @ [(h, options)]\<rparr>
             else w)
          else if hasAudioContext e \<and> resumeFails e then (False, w)
          else
            (case (if priority' then
                    duckBackgroundMusic
                      ((case priorityAudioRef w of
                          None \<Rightarrow> w
                        | Some p \<Rightarrow> stopAudio (Some p) w)\<lparr>priorityAudioRef := Some h\<rparr>)
                  else Done w) of
              Threw w1 \<Rightarrow> (False, w1)
            | Done w1 \<Rightarrow>
                (let w2 = (if stopPrevious' then
                            (case previousAudioRef w1 of
                               None \<Rightarrow> w1
                             | Some p \<Rightarrow> stopAudio (Some p) w1)
                          else w1);
                    w3 = configureAudio e h options w2
                in (case assignVolume volume' (audios w3 h) of
                     None \<Rightarrow> (False, w3)
                   | Some a \<Rightarrow>
                       (let w4 = setAudio h (a\<lparr>loop := loop'\<rparr>) w3;
                           w5 = w4\<lparr>visibilityListeners :=
                                   visibilityListeners w4 @ [(h, priority')]\<rparr>;
                           w6 = setAudio h
                                  ((audios w5 h)\<lparr>onended :=
                                     Some (EndHandler (onEnd options) priority' h)\<rparr>) w5;
                           w7 = w6\<lparr>previousAudioRef := Some h\<rparr>
                       in (case mediaPlay e (audios w7 h) of
                            None \<Rightarrow> (False, w7)
                          | Some a' \<Rightarrow> (True, setAudio h a' w7))))))))"

text \<open>
  \<open>enhancedOnEnd\<close>, the handler of the \<open>ended\<close> event, for the closure
  \<open>EndHandler cb pr h\<close>. The environment is the one the nested \<open>playAudio\<close> meets;
  its result is dropped, as in the source.
\<close>

definition enhancedOnEnd :: "env \<Rightarrow> endHandler \<Rightarrow> world \<Rightarrow> outcome" where
  "enhancedOnEnd e eh w =
     (case eh of EndHandler cb pr h \<Rightarrow>
        (let w1 = (case cb of
                    None \<Rightarrow> w
                  | Some c \<Rightarrow> w\<lparr>onEndCalls := onEndCalls w @ [c]\<rparr>)
        in (case (if pr then
                   (case restoreBackgroundMusic (w1\<lparr>priorityAudioRef := None\<rparr>) of
                      Threw w2 \<Rightarrow> Threw w2
                    | Done w2 \<Rightarrow>
                        (case priorityQueueRef w2 of
                           [] \<Rightarrow> Done w2
                         | nextAudio # rest \<Rightarrow>
                             Done (snd (playAudio e (Some (fst nextAudio))
                                          ((snd nextAudio)\<lparr>ignorePriority := Some True\<rparr>)
                                          (w2\<lparr>priorityQueueRef := rest\<rparr>)))))
                 else Done w1) of
             Threw w3 \<Rightarrow> Threw w3
           | Done w3 \<Rightarrow>
               Done (w3\<lparr>visibilityListeners := remove1 (h, pr) (visibilityListeners w3)\<rparr>))))"

text \<open>The browser's \<open>ended\<close> event on an element: playback has reached the end, the
  element is paused there, and its \<open>onended\<close> handler, if any, runs.\<close>

definition endedEvent :: "env \<Rightarrow> handle \<Rightarrow> world \<Rightarrow> outcome" where
  "endedEvent e h w =
     (let a = audios w h;
          w1 = setAudio h (a\<lparr>paused := True,
                             currentTime := (case duration a of
                                               None \<Rightarrow> currentTime a
                                             | Some d \<Rightarrow> d)\<rparr>) w
      in case onended a of
           None \<Rightarrow> Done w1
         | Some eh \<Rightarrow> enhancedOnEnd e eh w1)"

text \<open>The browser plays on: the position of an element moves to \<open>t\<close>.\<close>

definition playbackAdvances :: "handle \<Rightarrow> real \<Rightarrow> world \<Rightarrow> world" where
  "playbackAdvances h t w = setAudio h ((audios w h)\<lparr>currentTime := t\<rparr>) w"

text \<open>The page becomes hidden: every \<open>handleVisibilityChange\<close> still on the document
  runs, and stops its element unless its call had priority.\<close>

definition visibilityHidden :: "world \<Rightarrow> world" where
  "visibilityHidden w =
     fold (\<lambda>l v. if \<not> snd l then stopAudio (Some (fst l)) v else v) (visibilityListeners w) w"

definition initialBgMusic :: BackgroundMusicState where
  "initialBgMusic =
     \<lparr>audioRef = None, volume_bg = 1, isPlaying = False, originalVolume = 1,
      enableDucking = True\<rparr>"

definition initialMetadata :: AudioMetadata where
  "initialMetadata = \<lparr>duration_md = None, currentTime_md = 0, isPlaying_md = False\<rparr>"

definition cleanup :: "world \<Rightarrow> world" where
  "cleanup w =
     (let w1 = (case previousAudioRef w of
                  None \<Rightarrow> w
                | Some p \<Rightarrow> stopAudio (Some p) w);
          w2 = (case priorityAudioRef w1 of
                  None \<Rightarrow> w1
                | Some p \<Rightarrow> stopAudio (Some p) w1);
          w3 = (case audioRef (bgMusicRef w2) of
                  None \<Rightarrow> w2
                | Some m \<Rightarrow> stopAudio (Some m) w2);
          w4 = fold (\<lambda>q v. cleanupEventListeners (fst q) v) (priorityQueueRef w3) w3
      in w4\<lparr>previousAudioRef := None,
            priorityAudioRef := None,
            bgMusicRef := initialBgMusic,
            priorityQueueRef := [],
            audioMetadataRef := initialMetadata\<rparr>)"

definition getAudioMetadata :: "world \<Rightarrow> AudioMetadata" where
  "getAudioMetadata w = audioMetadataRef w"

text \<open>\<open>getBackgroundMusicState\<close> returns \<open>isPlaying\<close>, \<open>volume\<close>,
  \<open>originalVolume\<close> and \<open>enableDucking\<close>, in this order.\<close>

definition getBackgroundMusicState :: "world \<Rightarrow> bool \<times> real \<times> real \<times> bool" where
  "getBackgroundMusicState w =
     (isPlaying (bgMusicRef w), volume_bg (bgMusicRef w), originalVolume (bgMusicRef w),
      enableDucking (bgMusicRef w))"

text \<open>The state of a freshly mounted hook over a given store of elements.\<close>

definition initialWorld :: "(handle \<Rightarrow> audio) \<Rightarrow> world" where
  "initialWorld store =
     \<lparr>previousAudioRef = None, priorityAudioRef = None, bgMusicRef = initialBgMusic,
      audioMetadataRef = initialMetadata, priorityQueueRef = [], audios = store,
      visibilityListeners = [], onEndCalls = []\<rparr>"

subsection \<open>The two halves of an admitted \<open>playAudio\<close>\<close>

text \<open>
  Names for the two blocks of the \<open>try\<close> of \<open>playAudio\<close>, so that lemmas can speak
  of them one at a time: \<open>claimPriority\<close> is the body of \<open>if (priority)\<close> (lines
  347 to 353), \<open>startPlayback\<close> is what follows it (lines 355 to 404). Lemma
  \<open>playAudio_unfold\<close> below shows that \<open>playAudio\<close> is made of exactly these.
\<close>

definition claimPriority :: "handle \<Rightarrow> world \<Rightarrow> outcome" where
  "claimPriority h w =
     duckBackgroundMusic
       ((case priorityAudioRef w of
           None \<Rightarrow> w
         | Some p \<Rightarrow> stopAudio (Some p) w)\<lparr>priorityAudioRef := Some h\<rparr>)"

definition startPlayback ::
    "env \<Rightarrow> handle \<Rightarrow> AudioControlOptions \<Rightarrow> world \<Rightarrow> bool \<times> world" where
  "startPlayback e h options w1 =
     (let w2 = (if withDefault True (stopPrevious options) then
                  (case previousAudioRef w1 of
                     None \<Rightarrow> w1
                   | Some p \<Rightarrow> stopAudio (Some p) w1)
                else w1);
          w3 = configureAudio e h options w2
      in (case assignVolume (withDefault 1 (volume_opt options)) (audios w3 h) of
            None \<Rightarrow> (False, w3)
          | Some a \<Rightarrow>
              (let w4 = setAudio h (a\<lparr>loop := withDefault False (loop_opt options)\<rparr>) w3;
                   w5 = w4\<lparr>visibilityListeners :=
                           visibilityListeners w4 @
                             [(h, withDefault False (priority options))]\<rparr>;
                   w6 = setAudio h
                          ((audios w5 h)\<lparr>onended :=
                             Some (EndHandler (onEnd options)
                                     (withDefault False (priority options)) h)\<rparr>) w5;
                   w7 = w6\<lparr>previousAudioRef := Some h\<rparr>
               in (case mediaPlay e (audios w7 h) of
                     None \<Rightarrow> (False, w7)
                   | Some a' \<Rightarrow> (True, setAudio h a' w7)))))"

text \<open>The two steps at the head of \<open>enhancedOnEnd\<close> when nothing raises: the caller's
  callback has run (\<open>logged\<close>), and the bed has its original volume back where
  \<open>restoreBackgroundMusic\<close> assigns it (\<open>restored\<close>). Lemma \<open>restore_in_range\<close> ties
  the latter to the operation.\<close>

definition logged :: "callback option \<Rightarrow> world \<Rightarrow> world" where
  "logged cb w = (case cb of None \<Rightarrow> w | Some c \<Rightarrow> w\<lparr>onEndCalls := onEndCalls w @ [c]\<rparr>)"

definition restored :: "world \<Rightarrow> world" where
  "restored w =
     (case audioRef (bgMusicRef w) of
        None \<Rightarrow> w
      | Some m \<Rightarrow>
          if isPlaying (bgMusicRef w) \<and> enableDucking (bgMusicRef w)
          then setAudio m ((audios w m)\<lparr>volume := originalVolume (bgMusicRef w)\<rparr>) w
          else w)"

subsection \<open>Predicates on states\<close>

text \<open>A request is blocked when a priority sound is audible and the request neither has
  priority nor ignores it (the test at line 330).\<close>

definition blocked :: "AudioControlOptions \<Rightarrow> world \<Rightarrow> bool" where
  "blocked options w =
     (\<not> withDefault False (ignorePriority options) \<and> hasPriorityAudio w \<and>
      \<not> withDefault False (priority options))"

text \<open>The two volumes the background state records lie between 0 and 1. Every operation
  keeps this (they are only ever written with clamped values or with each other), and
  under it no assignment of a background volume raises.\<close>

definition volumesInRange :: "world \<Rightarrow> bool" where
  "volumesInRange w =
     (0 \<le> volume_bg (bgMusicRef w) \<and> volume_bg (bgMusicRef w) \<le> 1 \<and>
      0 \<le> originalVolume (bgMusicRef w) \<and> originalVolume (bgMusicRef w) \<le> 1)"

text \<open>No queued request has priority: only blocked requests are queued, and a request
  with priority is never blocked.\<close>

definition queueNonPriority :: "world \<Rightarrow> bool" where
  "queueNonPriority w =
     list_all (\<lambda>q. \<not> withDefault False (priority (snd q))) (priorityQueueRef w)"


text \<open>An element is stopped: paused, at position 0.\<close>

definition stopped :: "audio \<Rightarrow> bool" where
  "stopped a = (paused a \<and> currentTime a = 0)"

subsection \<open>The states the hook reaches\<close>

text \<open>
  From a freshly mounted hook, by the operations the hook exports or leaves behind as
  handlers, in any environment, interleaved with what the caller and the browser do to the
  elements on their own: playback moves on, an element ends, the page is hidden, the
  caller assigns an element's volume, pauses it or starts it.
\<close>

inductive reachable :: "world \<Rightarrow> bool" where
  mounted: "reachable (initialWorld store)"
| played: "reachable w \<Longrightarrow> reachable (snd (playAudio e r options w))"
| stoppedAudio: "reachable w \<Longrightarrow> reachable (stopAudio r w)"
| volumeSet: "reachable w \<Longrightarrow> reachable (setVolume r v w)"
| bgPlayed: "reachable w \<Longrightarrow> reachable (playBackgroundMusic e r vol ducking w)"
| bgStopped: "reachable w \<Longrightarrow> reachable (stopBackgroundMusic w)"
| bgVolumeSet: "reachable w \<Longrightarrow> reachable (final (setBackgroundMusicVolume v w))"
| bgDuckingSet: "reachable w \<Longrightarrow> reachable (final (setBackgroundMusicDucking d w))"
| cleaned: "reachable w \<Longrightarrow> reachable (cleanup w)"
| ended: "reachable w \<Longrightarrow> reachable (final (endedEvent e h w))"
| hidden: "reachable w \<Longrightarrow> reachable (visibilityHidden w)"
| advanced: "reachable w \<Longrightarrow> reachable (playbackAdvances h t w)"
| touched: "reachable w \<Longrightarrow>
            reachable (setAudio h ((audios w h)\<lparr>paused := b, volume := v\<rparr>) w)"

subsection \<open>Concrete elements, options and environments\<close>

text \<open>An element whose metadata is known (ten seconds long), idle at the start, at full
  volume; the options \<open>{}\<close>; a desktop browser in which nothing fails.\<close>

definition idleAudio :: audio where
  "idleAudio =
     \<lparr>paused = True, currentTime = 0, duration = Some 10, volume = 1, loop = False,
      playbackRate = 1, preload = Auto, onended = None, listeners = 0\<rparr>"

definition noOptions :: AudioControlOptions where
  "noOptions =
     \<lparr>stopPrevious = None, volume_opt = None, loop_opt = None, onEnd = None, priority = None,
      ignorePriority = None, queueIfBlocked = None, preload_opt = None,
      playbackRate_opt = None\<rparr>"

definition desktop :: env where
  "desktop = \<lparr>isMobile = False, hasAudioContext = True, resumeFails = False, playFails = False\<rparr>"

definition idleStore :: "handle \<Rightarrow> audio" where
  "idleStore h = idleAudio"

definition failingDevice :: env where
  "failingDevice = \<lparr>isMobile = False, hasAudioContext = True, resumeFails = False, playFails = True\<rparr>"

definition priorityOptions :: AudioControlOptions where
  "priorityOptions = noOptions\<lparr>priority := Some True\<rparr>"

definition queueOptions :: AudioControlOptions where
  "queueOptions = noOptions\<lparr>queueIfBlocked := Some True\<rparr>"

text \<open>Scenario states, each reached from a freshly mounted hook by calls of the hook alone.
  Element 2 is the music bed, 3 a priority effect, 4 an ordinary effect.\<close>

text \<open>\<open>playAudio(3, {priority: true})\<close>.\<close>

definition priorityPlaying :: world where
  "priorityPlaying = snd (playAudio desktop (Some 3) priorityOptions (initialWorld idleStore))"

text \<open>\<open>playBackgroundMusic(2, 0.8, true)\<close>.\<close>

definition bgPlaying :: world where
  "bgPlaying =
     playBackgroundMusic desktop (Some 2) (Some (4 / 5)) (Some True) (initialWorld idleStore)"

text \<open>\<open>playBackgroundMusic(2, 0.8, true)\<close>, then \<open>playAudio(3, {priority: true})\<close>.\<close>

definition bgDucked :: world where
  "bgDucked = snd (playAudio desktop (Some 3) priorityOptions bgPlaying)"

text \<open>\<open>playAudio(4, {})\<close>, then \<open>playAudio(3, {priority: true, stopPrevious: false})\<close>,
  then \<open>playAudio(4, {queueIfBlocked: true})\<close>: element 4 is playing and queued.\<close>

definition queuedWhilePlaying :: world where
  "queuedWhilePlaying =
     snd (playAudio desktop (Some 4) queueOptions
       (snd (playAudio desktop (Some 3) (priorityOptions\<lparr>stopPrevious := Some False\<rparr>)
         (snd (playAudio desktop (Some 4) noOptions (initialWorld idleStore))))))"

text \<open>\<open>bgDucked\<close> some seconds later: the priority sound at second 4, the bed at
  second 7.\<close>

definition bgDuckedLater :: world where
  "bgDuckedLater = playbackAdvances 2 7 (playbackAdvances 3 4 bgDucked)"

text \<open>The bed ducked under a priority sound, then stopped with
  \<open>stopBackgroundMusic()\<close>.\<close>

definition bgDuckedStopped :: world where
  "bgDuckedStopped = stopBackgroundMusic bgDuckedLater"

text \<open>\<open>playBackgroundMusic(2, 0.8, true)\<close>, then
  \<open>playAudio(3, {priority: true, onEnd: callback 7})\<close>; four seconds later
  \<open>playAudio(4, {queueIfBlocked: true})\<close> and then
  \<open>playAudio(5, {queueIfBlocked: true})\<close>: both are queued, in this order.\<close>

definition completionReady :: world where
  "completionReady =
     snd (playAudio desktop (Some 5) queueOptions
       (snd (playAudio desktop (Some 4) queueOptions
         (playbackAdvances 3 4
           (snd (playAudio desktop (Some 3) (priorityOptions\<lparr>onEnd := Some 7\<rparr>)
              bgPlaying))))))"

text \<open>\<open>playBackgroundMusic(2, 0.8, true)\<close>, then \<open>playAudio(3, {priority: true})\<close> on
  a device that rejects \<open>play()\<close>.\<close>

definition bgDuckedNoSound :: world where
  "bgDuckedNoSound = snd (playAudio failingDevice (Some 3) priorityOptions bgPlaying)"

text \<open>States in which one element has two roles, or a start of the bed fails. The bed
  plays at 0.8 and is started again at 0.3 on a device that rejects \<open>play()\<close>.\<close>

definition bedRestartFailed :: world where
  "bedRestartFailed =
     playBackgroundMusic failingDevice (Some 2) (Some (3 / 10)) (Some True) bgPlaying"

text \<open>The priority element 3 is stopped with the exported \<open>stopAudio\<close>, which leaves it
  in the priority slot; then it is started as the bed.\<close>

definition prioritySlotStopped :: world where
  "prioritySlotStopped = stopAudio (Some 3) priorityPlaying"

definition slotHolderAsBed :: world where
  "slotHolderAsBed =
     playBackgroundMusic desktop (Some 3) (Some (4 / 5)) (Some True) prioritySlotStopped"

text \<open>The playing bed is played as a priority sound.\<close>

definition bedAsPriority :: world where
  "bedAsPriority = snd (playAudio desktop (Some 2) priorityOptions bgPlaying)"

text \<open>A request for the bed's element is queued under a priority sound, and dequeued when
  that sound ends.\<close>

definition bedQueued :: world where
  "bedQueued = snd (playAudio desktop (Some 2) queueOptions bgDuckedLater)"

definition bedDequeued :: world where
  "bedDequeued = final (endedEvent desktop 3 bedQueued)"

text \<open>Elements whose metadata is not loaded yet: the bed is started, then
  \<open>playAudio(3, {priority: true})\<close> succeeds.\<close>

definition unloadedStore :: "handle \<Rightarrow> audio" where
  "unloadedStore h = idleAudio\<lparr>duration := None\<rparr>"

definition bgPlayingUnloaded :: world where
  "bgPlayingUnloaded =
     playBackgroundMusic desktop (Some 2) (Some (4 / 5)) (Some True) (initialWorld unloadedStore)"

definition priorityUnloaded :: world where
  "priorityUnloaded = snd (playAudio desktop (Some 3) priorityOptions bgPlayingUnloaded)"

text \<open>
  Element 4 is thirty seconds long, the others ten. Elements 4 and 5 are queued under the
  priority element 3. When element 3 ends, element 4 is started; a second later comes
  \<open>playAudio(6, {priority: true, stopPrevious: false})\<close>; when element 6 ends, ten
  seconds on, element 5 is started.
\<close>

definition longStore :: "handle \<Rightarrow> audio" where
  "longStore h = idleAudio\<lparr>duration := Some (if h = 4 then 30 else 10)\<rparr>"

definition twoQueued :: world where
  "twoQueued =
     snd (playAudio desktop (Some 5) queueOptions
       (snd (playAudio desktop (Some 4) queueOptions
         (snd (playAudio desktop (Some 3) priorityOptions (initialWorld longStore))))))"

definition firstServed :: world where
  "firstServed = playbackAdvances 4 1 (final (endedEvent desktop 3 twoQueued))"

definition twoOverlapping :: world where
  "twoOverlapping =
     final (endedEvent desktop 6
       (playbackAdvances 4 11
         (snd (playAudio desktop (Some 6) (priorityOptions\<lparr>stopPrevious := Some False\<rparr>)
            firstServed))))"

text \<open>A store whose elements sit at half volume, and a request for volume 1.5.\<close>

definition quietStore :: "handle \<Rightarrow> audio" where
  "quietStore h = idleAudio\<lparr>volume := 1 / 2\<rparr>"

definition loudOptions :: AudioControlOptions where
  "loudOptions = noOptions\<lparr>volume_opt := Some (3 / 2)\<rparr>"

section \<open>Basic facts\<close>

subsection \<open>Defaults, clamping, the store\<close>

lemma withDefault_simps [simp]:
  "withDefault d None = d"
  "withDefault d (Some v) = v"
  by (simp_all add: withDefault_def)

lemma clamp01_range: "0 \<le> clamp01 v \<and> clamp01 v \<le> 1"
  by (simp add: clamp01_def)

lemma clamp01_fifth_range: "0 \<le> clamp01 v * 0.2 \<and> clamp01 v * 0.2 \<le> 1"
  by (simp add: clamp01_def max_def min_def)

lemma setAudio_fields [simp]:
  "previousAudioRef (setAudio h a w) = previousAudioRef w"
  "priorityAudioRef (setAudio h a w) = priorityAudioRef w"
  "bgMusicRef (setAudio h a w) = bgMusicRef w"
  "audioMetadataRef (setAudio h a w) = audioMetadataRef w"
  "priorityQueueRef (setAudio h a w) = priorityQueueRef w"
  "visibilityListeners (setAudio h a w) = visibilityListeners w"
  "onEndCalls (setAudio h a w) = onEndCalls w"
  "audios (setAudio h a w) x = (if x = h then a else audios w x)"
  by (simp_all add: setAudio_def)

subsection \<open>Stopping\<close>

lemma stopAudio_fields [simp]:
  "previousAudioRef (stopAudio r w) = previousAudioRef w"
  "priorityAudioRef (stopAudio r w) = priorityAudioRef w"
  "bgMusicRef (stopAudio r w) = bgMusicRef w"
  "audioMetadataRef (stopAudio r w) = audioMetadataRef w"
  "priorityQueueRef (stopAudio r w) = priorityQueueRef w"
  "visibilityListeners (stopAudio r w) = visibilityListeners w"
  "onEndCalls (stopAudio r w) = onEndCalls w"
  by (simp_all add: stopAudio_def cleanupEventListeners_def split: option.splits)

lemma stopAudio_audios:
  "audios (stopAudio r w) x =
     (if r = Some x then (audios w x)\<lparr>paused := True, currentTime := 0\<rparr> else audios w x)"
  by (simp add: stopAudio_def cleanupEventListeners_def split: option.splits)

lemma stopAudio_None [simp]: "stopAudio None w = w"
  by (simp add: stopAudio_def)

lemma stopAudio_case:
  "(case r of None \<Rightarrow> w | Some p \<Rightarrow> stopAudio (Some p) w) = stopAudio r w"
  by (simp split: option.splits)

lemma stopAudio_stopped: "stopped (audios (stopAudio (Some h) w) h)"
  by (simp add: stopAudio_audios stopped_def)


lemma fold_cleanupEventListeners [simp]:
  "fold (\<lambda>q v. cleanupEventListeners (fst q) v) qs w = w"
  by (induction qs arbitrary: w) (simp_all add: cleanupEventListeners_def)

lemma cleanup_eq:
  "cleanup w =
     (stopAudio (audioRef (bgMusicRef w))
        (stopAudio (priorityAudioRef w) (stopAudio (previousAudioRef w) w)))
       \<lparr>previousAudioRef := None, priorityAudioRef := None, bgMusicRef := initialBgMusic,
        priorityQueueRef := [], audioMetadataRef := initialMetadata\<rparr>"
  by (simp add: cleanup_def Let_def stopAudio_case)

lemma stopBackgroundMusic_eq:
  "stopBackgroundMusic w =
     (case audioRef (bgMusicRef w) of
        None \<Rightarrow> w
      | Some m \<Rightarrow> (stopAudio (Some m) w)\<lparr>bgMusicRef := (bgMusicRef w)\<lparr>isPlaying := False\<rparr>\<rparr>)"
  by (simp add: stopBackgroundMusic_def Let_def split: option.splits)

subsection \<open>The priority test\<close>


lemma hasPriorityAudio_bg_update [simp]:
  "hasPriorityAudio (w\<lparr>bgMusicRef := b\<rparr>) = hasPriorityAudio w"
  by (simp add: hasPriorityAudio_def split: option.splits)

subsection \<open>Ducking and restoring\<close>

lemma duck_cases:
  "duckBackgroundMusic w =
     (case audioRef (bgMusicRef w) of
        None \<Rightarrow> Done w
      | Some m \<Rightarrow>
          if isPlaying (bgMusicRef w) \<and> enableDucking (bgMusicRef w) then
            if 0 \<le> volume_bg (bgMusicRef w) * 0.2 \<and> volume_bg (bgMusicRef w) * 0.2 \<le> 1 then
              Done (w\<lparr>bgMusicRef := (bgMusicRef w)\<lparr>originalVolume := volume_bg (bgMusicRef w)\<rparr>,
                      audios := (audios w)(m := (audios w m)\<lparr>volume := volume_bg (bgMusicRef w) * 0.2\<rparr>)\<rparr>)
            else Threw (w\<lparr>bgMusicRef := (bgMusicRef w)\<lparr>originalVolume := volume_bg (bgMusicRef w)\<rparr>\<rparr>)
          else Done w)"
  by (auto simp: duckBackgroundMusic_def assignVolume_def Let_def setAudio_def split: option.splits)

lemma duck_Done_fields:
  assumes "duckBackgroundMusic w = Done w1"
  shows "previousAudioRef w1 = previousAudioRef w"
    and "priorityAudioRef w1 = priorityAudioRef w"
    and "audioMetadataRef w1 = audioMetadataRef w"
    and "priorityQueueRef w1 = priorityQueueRef w"
    and "visibilityListeners w1 = visibilityListeners w"
    and "onEndCalls w1 = onEndCalls w"
    and "audioRef (bgMusicRef w1) = audioRef (bgMusicRef w)"
    and "isPlaying (bgMusicRef w1) = isPlaying (bgMusicRef w)"
    and "enableDucking (bgMusicRef w1) = enableDucking (bgMusicRef w)"
    and "volume_bg (bgMusicRef w1) = volume_bg (bgMusicRef w)"
    and "paused (audios w1 x) = paused (audios w x)"
    and "currentTime (audios w1 x) = currentTime (audios w x)"
    and "duration (audios w1 x) = duration (audios w x)"
    and "onended (audios w1 x) = onended (audios w x)"
  using assms
  by (auto simp: duck_cases split: option.splits if_splits)

lemma duck_Threw_fields:
  assumes "duckBackgroundMusic w = Threw w1"
  shows "previousAudioRef w1 = previousAudioRef w"
    and "priorityAudioRef w1 = priorityAudioRef w"
    and "priorityQueueRef w1 = priorityQueueRef w"
    and "audios w1 = audios w"
  using assms
  by (auto simp: duck_cases split: option.splits if_splits)

lemma duck_in_range:
  assumes "volumesInRange w"
  shows "duckBackgroundMusic w =
     Done (case audioRef (bgMusicRef w) of
        None \<Rightarrow> w
      | Some m \<Rightarrow>
          if isPlaying (bgMusicRef w) \<and> enableDucking (bgMusicRef w) then
              w\<lparr>bgMusicRef := (bgMusicRef w)\<lparr>originalVolume := volume_bg (bgMusicRef w)\<rparr>,
                      audios := (audios w)(m := (audios w m)\<lparr>volume := volume_bg (bgMusicRef w) * 0.2\<rparr>)\<rparr>
          else w)"
  using assms
  by (auto simp: duck_cases volumesInRange_def split: option.splits)

lemma restore_in_range:
  assumes "0 \<le> originalVolume (bgMusicRef w)" "originalVolume (bgMusicRef w) \<le> 1"
  shows "restoreBackgroundMusic w = Done (restored w)"
  using assms
  by (auto simp: restoreBackgroundMusic_def restored_def assignVolume_def split: option.splits)

lemma restored_fields [simp]:
  "previousAudioRef (restored w) = previousAudioRef w"
  "priorityAudioRef (restored w) = priorityAudioRef w"
  "bgMusicRef (restored w) = bgMusicRef w"
  "audioMetadataRef (restored w) = audioMetadataRef w"
  "priorityQueueRef (restored w) = priorityQueueRef w"
  "visibilityListeners (restored w) = visibilityListeners w"
  "onEndCalls (restored w) = onEndCalls w"
  "paused (audios (restored w) x) = paused (audios w x)"
  "currentTime (audios (restored w) x) = currentTime (audios w x)"
  "duration (audios (restored w) x) = duration (audios w x)"
  "onended (audios (restored w) x) = onended (audios w x)"
  by (simp_all add: restored_def split: option.splits)


lemma logged_fields [simp]:
  "previousAudioRef (logged cb w) = previousAudioRef w"
  "priorityAudioRef (logged cb w) = priorityAudioRef w"
  "bgMusicRef (logged cb w) = bgMusicRef w"
  "audioMetadataRef (logged cb w) = audioMetadataRef w"
  "priorityQueueRef (logged cb w) = priorityQueueRef w"
  "visibilityListeners (logged cb w) = visibilityListeners w"
  "audios (logged cb w) = audios w"
  "onEndCalls (logged cb w) = onEndCalls w @ (case cb of None \<Rightarrow> [] | Some c \<Rightarrow> [c])"
  by (simp_all add: logged_def split: option.splits)

subsection \<open>The parts of \<open>playAudio\<close>\<close>

lemma playAudio_unfold:
  "playAudio e (Some h) options w =
     (if blocked options w then
        (False,
         if withDefault False (queueIfBlocked options)
         then w\<lparr>priorityQueueRef := priorityQueueRef w @ [(h, options)]\<rparr>
         else w)
      else if hasAudioContext e \<and> resumeFails e then (False, w)
      else (case (if withDefault False (priority options) then claimPriority h w else Done w) of
              Threw w1 \<Rightarrow> (False, w1)
            | Done w1 \<Rightarrow> startPlayback e h options w1))"
  by (simp add: playAudio_def blocked_def claimPriority_def startPlayback_def Let_def
        split: outcome.splits)

lemma playAudio_admitted:
  assumes "\<not> blocked options w"
    and "\<not> (hasAudioContext e \<and> resumeFails e)"
  shows "playAudio e (Some h) options w =
     (case (if withDefault False (priority options) then claimPriority h w else Done w) of
        Threw w1 \<Rightarrow> (False, w1)
      | Done w1 \<Rightarrow> startPlayback e h options w1)"
  using assms by (auto simp: playAudio_unfold)

lemma playAudio_ignoring:
  assumes "withDefault False (ignorePriority options)"
    and "\<not> withDefault False (priority options)"
  shows "playAudio e (Some h) options w =
     (if hasAudioContext e \<and> resumeFails e then (False, w) else startPlayback e h options w)"
  using assms by (simp add: playAudio_unfold blocked_def)

lemma configureAudio_fields [simp]:
  "previousAudioRef (configureAudio e h options w) = previousAudioRef w"
  "priorityAudioRef (configureAudio e h options w) = priorityAudioRef w"
  "bgMusicRef (configureAudio e h options w) = bgMusicRef w"
  "audioMetadataRef (configureAudio e h options w) = audioMetadataRef w"
  "priorityQueueRef (configureAudio e h options w) = priorityQueueRef w"
  "visibilityListeners (configureAudio e h options w) = visibilityListeners w"
  "onEndCalls (configureAudio e h options w) = onEndCalls w"
  by (simp_all add: configureAudio_def cleanupEventListeners_def Let_def)

lemma configureAudio_other [simp]:
  "x \<noteq> h \<Longrightarrow> audios (configureAudio e h options w) x = audios w x"
  by (simp add: configureAudio_def cleanupEventListeners_def Let_def)

lemma configureAudio_same [simp]:
  "paused (audios (configureAudio e h options w) x) = paused (audios w x)"
  "currentTime (audios (configureAudio e h options w) x) = currentTime (audios w x)"
  "duration (audios (configureAudio e h options w) x) = duration (audios w x)"
  "volume (audios (configureAudio e h options w) x) = volume (audios w x)"
  by (simp_all add: configureAudio_def cleanupEventListeners_def Let_def split: option.splits)

lemma startPlayback_fields [simp]:
  "priorityAudioRef (snd (startPlayback e h options w)) = priorityAudioRef w"
  "bgMusicRef (snd (startPlayback e h options w)) = bgMusicRef w"
  "audioMetadataRef (snd (startPlayback e h options w)) = audioMetadataRef w"
  "priorityQueueRef (snd (startPlayback e h options w)) = priorityQueueRef w"
  "onEndCalls (snd (startPlayback e h options w)) = onEndCalls w"
  by (simp_all add: startPlayback_def Let_def stopAudio_case split: option.splits)



lemma startPlayback_other:
  "x \<noteq> h \<Longrightarrow>
   audios (snd (startPlayback e h options w)) x =
     audios (stopAudio (if withDefault True (stopPrevious options) then previousAudioRef w else None) w) x"
  by (simp add: startPlayback_def Let_def assignVolume_def mediaPlay_def stopAudio_case)

lemma startPlayback_volume_other:
  "x \<noteq> h \<Longrightarrow>
   volume (audios (snd (startPlayback e h options w)) x) = volume (audios w x)"
  by (simp add: startPlayback_other stopAudio_audios)

lemma startPlayback_self_fails:
  "playFails e \<Longrightarrow>
   paused (audios (snd (startPlayback e h options w)) h) =
     paused (audios (stopAudio (if withDefault True (stopPrevious options) then previousAudioRef w else None) w) h)"
  "playFails e \<Longrightarrow>
   currentTime (audios (snd (startPlayback e h options w)) h) =
     currentTime (audios (stopAudio (if withDefault True (stopPrevious options) then previousAudioRef w else None) w) h)"
  by (simp_all add: startPlayback_def Let_def assignVolume_def mediaPlay_def stopAudio_case)

lemma startPlayback_rewound:
  assumes "currentTime (audios w x) = 0 \<or>
           (withDefault True (stopPrevious options) \<and> previousAudioRef w = Some x)"
  shows "currentTime (audios (snd (startPlayback e h options w)) x) = 0"
proof (cases "x = h")
  case False
  then show ?thesis using assms
    by (auto simp: startPlayback_other stopAudio_audios)
next
  case True
  have "currentTime (audios (stopAudio (if withDefault True (stopPrevious options)
          then previousAudioRef w else None) w) h) = 0"
    using assms True by (auto simp: stopAudio_audios)
  then show ?thesis
    unfolding True
    by (simp add: startPlayback_def Let_def assignVolume_def mediaPlay_def stopAudio_case
          split: option.splits if_splits)
qed

lemma startPlayback_paused_other:
  assumes "x \<noteq> h"
    and "paused (audios w x) \<or>
           (withDefault True (stopPrevious options) \<and> previousAudioRef w = Some x)"
  shows "paused (audios (snd (startPlayback e h options w)) x)"
  using assms by (auto simp: startPlayback_other stopAudio_audios)






lemma claimPriority_in_range:
  assumes "volumesInRange w"
  shows "\<exists>w1. claimPriority h w = Done w1"
proof -
  have "volumesInRange ((stopAudio (priorityAudioRef w) w)\<lparr>priorityAudioRef := Some h\<rparr>)"
    using assms by (simp add: volumesInRange_def)
  from duck_in_range [OF this] show ?thesis
    by (simp add: claimPriority_def stopAudio_case)
qed

lemma claimPriority_Done_fields:
  assumes "claimPriority h w = Done w1"
  shows "priorityAudioRef w1 = Some h"
    and "previousAudioRef w1 = previousAudioRef w"
    and "audioMetadataRef w1 = audioMetadataRef w"
    and "priorityQueueRef w1 = priorityQueueRef w"
    and "visibilityListeners w1 = visibilityListeners w"
    and "onEndCalls w1 = onEndCalls w"
    and "audioRef (bgMusicRef w1) = audioRef (bgMusicRef w)"
    and "isPlaying (bgMusicRef w1) = isPlaying (bgMusicRef w)"
    and "enableDucking (bgMusicRef w1) = enableDucking (bgMusicRef w)"
    and "volume_bg (bgMusicRef w1) = volume_bg (bgMusicRef w)"
    and "paused (audios w1 x) = paused (audios (stopAudio (priorityAudioRef w) w) x)"
    and "currentTime (audios w1 x) = currentTime (audios (stopAudio (priorityAudioRef w) w) x)"
    and "duration (audios w1 x) = duration (audios w x)"
    and "onended (audios w1 x) = onended (audios w x)"
  using duck_Done_fields [OF assms [unfolded claimPriority_def stopAudio_case]]
  by (simp_all add: stopAudio_audios)

lemma claimPriority_Done_ducked:
  assumes "claimPriority h w = Done w1"
    and "audioRef (bgMusicRef w) = Some m"
    and "isPlaying (bgMusicRef w)"
    and "enableDucking (bgMusicRef w)"
  shows "originalVolume (bgMusicRef w1) = volume_bg (bgMusicRef w)"
    and "volume (audios w1 m) = volume_bg (bgMusicRef w) * 0.2"
  using assms
  by (auto simp: claimPriority_def stopAudio_case duck_cases split: if_splits)


lemma claimPriority_Threw_fields:
  assumes "claimPriority h w = Threw w1"
  shows "priorityQueueRef w1 = priorityQueueRef w"
  using duck_Threw_fields(3) [OF assms [unfolded claimPriority_def stopAudio_case]]
  by simp

lemma claimPriority_bg:
  assumes "claimPriority h w = Done w1 \<or> claimPriority h w = Threw w1"
  shows "volume_bg (bgMusicRef w1) = volume_bg (bgMusicRef w)"
    and "originalVolume (bgMusicRef w1) = originalVolume (bgMusicRef w) \<or>
         originalVolume (bgMusicRef w1) = volume_bg (bgMusicRef w)"
  using assms
  by (auto simp: claimPriority_def stopAudio_case duck_cases split: option.splits if_splits)

subsection \<open>Background music\<close>

lemma playBackgroundMusic_fails:
  assumes "playFails e"
  shows "bgMusicRef (playBackgroundMusic e r v d w) = bgMusicRef w"
    and "previousAudioRef (playBackgroundMusic e r v d w) = previousAudioRef w"
    and "priorityAudioRef (playBackgroundMusic e r v d w) = priorityAudioRef w"
    and "priorityQueueRef (playBackgroundMusic e r v d w) = priorityQueueRef w"
    and "paused (audios (playBackgroundMusic e r v d w) x) =
           paused (audios (stopAudio (case r of None \<Rightarrow> None | Some h \<Rightarrow> audioRef (bgMusicRef w)) w) x)"
    and "currentTime (audios (playBackgroundMusic e r v d w) x) =
           currentTime (audios (stopAudio (case r of None \<Rightarrow> None | Some h \<Rightarrow> audioRef (bgMusicRef w)) w) x)"
  using assms
  by (simp_all add: playBackgroundMusic_def Let_def stopAudio_case assignVolume_def mediaPlay_def
        split: option.splits)

lemma setBackgroundMusicVolume_eq:
  assumes "audioRef (bgMusicRef w) = Some m"
  shows "setBackgroundMusicVolume v w =
     Done (w\<lparr>bgMusicRef := (bgMusicRef w)
               \<lparr>originalVolume := clamp01 v,
                volume_bg := (if hasPriorityAudio w \<and> enableDucking (bgMusicRef w)
                              then clamp01 v * 0.2 else clamp01 v)\<rparr>,
             audios := (audios w)
               (m := (audios w m)\<lparr>volume := (if hasPriorityAudio w \<and> enableDucking (bgMusicRef w)
                                               then clamp01 v * 0.2 else clamp01 v)\<rparr>)\<rparr>)"
  using assms clamp01_range [of v] clamp01_fifth_range [of v]
  by (simp add: setBackgroundMusicVolume_def Let_def assignVolume_def setAudio_def)

lemma setBackgroundMusicDucking_eq:
  assumes "audioRef (bgMusicRef w) = Some m"
    and "0 \<le> originalVolume (bgMusicRef w)" "originalVolume (bgMusicRef w) \<le> 1"
  shows "setBackgroundMusicDucking d w =
     Done (if hasPriorityAudio w then
             w\<lparr>bgMusicRef := (bgMusicRef w)\<lparr>enableDucking := d\<rparr>,
               audios := (audios w)
                 (m := (audios w m)\<lparr>volume := (if d then originalVolume (bgMusicRef w) * 0.2
                                                  else originalVolume (bgMusicRef w))\<rparr>)\<rparr>
           else w\<lparr>bgMusicRef := (bgMusicRef w)\<lparr>enableDucking := d\<rparr>\<rparr>)"
  using assms
  by (simp add: setBackgroundMusicDucking_def Let_def assignVolume_def setAudio_def)

lemma setBackgroundMusicDucking_flag:
  "enableDucking (bgMusicRef (final (setBackgroundMusicDucking d w))) =
     (if audioRef (bgMusicRef w) = None then enableDucking (bgMusicRef w) else d)"
  by (simp add: setBackgroundMusicDucking_def Let_def assignVolume_def split: option.splits)

subsection \<open>The \<open>ended\<close> event\<close>

lemma enhancedOnEnd_priority:
  assumes rng: "volumesInRange w"
    and np: "queueNonPriority w"
  shows "enhancedOnEnd e (EndHandler cb True hh) w =
     Done ((case priorityQueueRef w of
              [] \<Rightarrow> restored ((logged cb w)\<lparr>priorityAudioRef := None\<rparr>)
            | q # rest \<Rightarrow>
                if hasAudioContext e \<and> resumeFails e
                then (restored ((logged cb w)\<lparr>priorityAudioRef := None\<rparr>))\<lparr>priorityQueueRef := rest\<rparr>
                else snd (startPlayback e (fst q) ((snd q)\<lparr>ignorePriority := Some True\<rparr>)
                       ((restored ((logged cb w)\<lparr>priorityAudioRef := None\<rparr>))\<lparr>priorityQueueRef := rest\<rparr>)))
           \<lparr>visibilityListeners :=
              remove1 (hh, True)
                (visibilityListeners
                  (case priorityQueueRef w of
              [] \<Rightarrow> restored ((logged cb w)\<lparr>priorityAudioRef := None\<rparr>)
            | q # rest \<Rightarrow>
                if hasAudioContext e \<and> resumeFails e
                then (restored ((logged cb w)\<lparr>priorityAudioRef := None\<rparr>))\<lparr>priorityQueueRef := rest\<rparr>
                else snd (startPlayback e (fst q) ((snd q)\<lparr>ignorePriority := Some True\<rparr>)
                       ((restored ((logged cb w)\<lparr>priorityAudioRef := None\<rparr>))\<lparr>priorityQueueRef := rest\<rparr>))))\<rparr>)"
proof -
  let ?w1 = "(logged cb w)\<lparr>priorityAudioRef := None\<rparr>"
  have r: "restoreBackgroundMusic ?w1 = Done (restored ?w1)"
    using rng by (intro restore_in_range) (simp_all add: volumesInRange_def)
  show ?thesis
  proof (cases "priorityQueueRef w")
    case Nil
    then show ?thesis
      using r by (simp add: enhancedOnEnd_def Let_def logged_def [symmetric])
  next
    case (Cons q rest)
    then have "\<not> withDefault False (priority (snd q))"
      using np by (simp add: queueNonPriority_def)
    then have pa: "playAudio e (Some (fst q)) ((snd q)\<lparr>ignorePriority := Some True\<rparr>) v =
       (if hasAudioContext e \<and> resumeFails e then (False, v)
        else startPlayback e (fst q) ((snd q)\<lparr>ignorePriority := Some True\<rparr>) v)" for v
      by (intro playAudio_ignoring) simp_all
    show ?thesis
      using r Cons by (simp add: enhancedOnEnd_def Let_def logged_def [symmetric] pa)
  qed
qed

lemma endedEvent_eq:
  "endedEvent e h w =
     (case onended (audios w h) of
        None \<Rightarrow>
          Done (setAudio h ((audios w h)\<lparr>paused := True,
                  currentTime := (case duration (audios w h) of
                                    None \<Rightarrow> currentTime (audios w h) | Some d \<Rightarrow> d)\<rparr>) w)
      | Some eh \<Rightarrow>
          enhancedOnEnd e eh
            (setAudio h ((audios w h)\<lparr>paused := True,
                  currentTime := (case duration (audios w h) of
                                    None \<Rightarrow> currentTime (audios w h) | Some d \<Rightarrow> d)\<rparr>) w))"
  by (simp add: endedEvent_def Let_def)





subsection \<open>Applied and recorded volume\<close>








section \<open>What every reachable state satisfies\<close>

text \<open>
  The recorded volumes stay in range and no priority request is ever queued, whatever the
  hook, its caller and the browser do.
\<close>

lemma playAudio_queue:
  "priorityQueueRef (snd (playAudio e (Some h) options w)) =
     (if blocked options w \<and> withDefault False (queueIfBlocked options)
      then priorityQueueRef w @ [(h, options)] else priorityQueueRef w)"
proof (cases "withDefault False (priority options)")
  case True
  then show ?thesis
    by (cases "claimPriority h w")
       (simp_all add: playAudio_unfold claimPriority_Done_fields claimPriority_Threw_fields)
next
  case False
  then show ?thesis
    by (simp add: playAudio_unfold)
qed

lemma playAudio_keeps_queueNonPriority:
  assumes "queueNonPriority w"
  shows "queueNonPriority (snd (playAudio e r options w))"
proof (cases r)
  case None
  then show ?thesis using assms by (simp add: playAudio_def)
next
  case (Some h)
  show ?thesis
    using assms unfolding Some queueNonPriority_def playAudio_queue
    by (auto simp: blocked_def)
qed

lemma playAudio_keeps_volumesInRange:
  assumes "volumesInRange w"
  shows "volumesInRange (snd (playAudio e r options w))"
proof (cases r)
  case None
  then show ?thesis using assms by (simp add: playAudio_def)
next
  case (Some h)
  show ?thesis
  proof (cases "withDefault False (priority options)")
    case True
    obtain w1 where w1: "claimPriority h w = Done w1"
      using claimPriority_in_range [OF assms] by blast
    have "volumesInRange w1"
      using claimPriority_bg [of h w w1] w1 assms by (auto simp: volumesInRange_def)
    then show ?thesis
      using assms True w1 unfolding Some
      by (simp add: playAudio_unfold volumesInRange_def)
  next
    case False
    then show ?thesis
      using assms unfolding Some by (simp add: playAudio_unfold volumesInRange_def)
  qed
qed

lemma playBackgroundMusic_keeps:
  "priorityQueueRef (playBackgroundMusic e r v d w) = priorityQueueRef w"
  "volumesInRange w \<Longrightarrow> volumesInRange (playBackgroundMusic e r v d w)"
  using clamp01_range [of "withDefault 1 v"] clamp01_fifth_range [of "withDefault 1 v"]
  by (simp_all add: playBackgroundMusic_def Let_def stopAudio_case assignVolume_def
        mediaPlay_def volumesInRange_def split: option.splits)

lemma setBackgroundMusicVolume_keeps:
  "priorityQueueRef (final (setBackgroundMusicVolume v w)) = priorityQueueRef w"
  "volumesInRange w \<Longrightarrow> volumesInRange (final (setBackgroundMusicVolume v w))"
proof -
  show "priorityQueueRef (final (setBackgroundMusicVolume v w)) = priorityQueueRef w"
    by (cases "audioRef (bgMusicRef w)")
       (simp_all add: setBackgroundMusicVolume_eq, simp add: setBackgroundMusicVolume_def)
  show "volumesInRange (final (setBackgroundMusicVolume v w))" if "volumesInRange w"
    using that clamp01_range [of v] clamp01_fifth_range [of v]
    by (cases "audioRef (bgMusicRef w)")
       (simp_all add: setBackgroundMusicVolume_eq volumesInRange_def,
        simp add: setBackgroundMusicVolume_def)
qed

lemma setBackgroundMusicDucking_keeps:
  "priorityQueueRef (final (setBackgroundMusicDucking d w)) = priorityQueueRef w"
  "volumesInRange w \<Longrightarrow> volumesInRange (final (setBackgroundMusicDucking d w))"
  by (simp_all add: setBackgroundMusicDucking_def Let_def assignVolume_def volumesInRange_def
        split: option.splits)

lemma visibilityHidden_keeps:
  "priorityQueueRef (visibilityHidden w) = priorityQueueRef w"
  "bgMusicRef (visibilityHidden w) = bgMusicRef w"
proof -
  have "priorityQueueRef (fold (\<lambda>l v. if \<not> snd l then stopAudio (Some (fst l)) v else v) ls w)
          = priorityQueueRef w \<and>
        bgMusicRef (fold (\<lambda>l v. if \<not> snd l then stopAudio (Some (fst l)) v else v) ls w)
          = bgMusicRef w" for ls
    by (induction ls arbitrary: w) simp_all
  then show "priorityQueueRef (visibilityHidden w) = priorityQueueRef w"
    "bgMusicRef (visibilityHidden w) = bgMusicRef w"
    by (simp_all add: visibilityHidden_def)
qed

lemma enhancedOnEnd_keeps:
  assumes "volumesInRange w" "queueNonPriority w"
  shows "volumesInRange (final (enhancedOnEnd e eh w)) \<and>
         queueNonPriority (final (enhancedOnEnd e eh w))"
proof (cases eh)
  case (EndHandler cb pr hh)
  show ?thesis
  proof (cases pr)
    case False
    then show ?thesis
      using assms unfolding EndHandler
      by (simp add: enhancedOnEnd_def Let_def volumesInRange_def queueNonPriority_def
            split: option.splits)
  next
    case True
    then have eh: "eh = EndHandler cb True hh"
      using EndHandler by simp
    let ?R = "restored ((logged cb w)\<lparr>priorityAudioRef := None\<rparr>)"
    have R: "volumesInRange ?R" "queueNonPriority ?R"
      using assms by (simp_all add: volumesInRange_def queueNonPriority_def)
    show ?thesis
    proof (cases "priorityQueueRef w")
      case Nil
      then show ?thesis
        using R unfolding eh enhancedOnEnd_priority [OF assms]
        by (simp add: volumesInRange_def queueNonPriority_def)
    next
      case (Cons n ns)
      have "volumesInRange (?R\<lparr>priorityQueueRef := ns\<rparr>)"
        "queueNonPriority (?R\<lparr>priorityQueueRef := ns\<rparr>)"
        using R Cons assms(2) by (simp_all add: volumesInRange_def queueNonPriority_def)
      then show ?thesis
        using Cons unfolding eh enhancedOnEnd_priority [OF assms]
        by (simp add: volumesInRange_def queueNonPriority_def)
    qed
  qed
qed

lemma endedEvent_keeps:
  assumes "volumesInRange w" "queueNonPriority w"
  shows "volumesInRange (final (endedEvent e h w)) \<and>
         queueNonPriority (final (endedEvent e h w))"
proof -
  let ?w0 = "setAudio h ((audios w h)\<lparr>paused := True,
                  currentTime := (case duration (audios w h) of
                                    None \<Rightarrow> currentTime (audios w h) | Some d \<Rightarrow> d)\<rparr>) w"
  have 0: "volumesInRange ?w0" "queueNonPriority ?w0"
    using assms by (simp_all add: volumesInRange_def queueNonPriority_def)
  show ?thesis
    using 0 enhancedOnEnd_keeps [OF 0]
    by (simp add: endedEvent_eq split: option.splits)
qed

lemma reachable_invariants:
  "reachable w \<Longrightarrow> volumesInRange w \<and> queueNonPriority w"
proof (induction rule: reachable.induct)
  case (mounted store)
  show ?case
    by (simp add: volumesInRange_def queueNonPriority_def initialWorld_def initialBgMusic_def)
next
  case (played w e r options)
  then show ?case
    by (simp add: playAudio_keeps_queueNonPriority playAudio_keeps_volumesInRange)
next
  case (stoppedAudio w r)
  then show ?case by (simp add: volumesInRange_def queueNonPriority_def)
next
  case (volumeSet w r v)
  then show ?case
    by (simp add: volumesInRange_def queueNonPriority_def setVolume_def split: option.splits)
next
  case (bgPlayed w e r vol ducking)
  then show ?case
    by (simp add: playBackgroundMusic_keeps queueNonPriority_def)
next
  case (bgStopped w)
  then show ?case
    by (simp add: stopBackgroundMusic_eq volumesInRange_def queueNonPriority_def
          split: option.splits)
next
  case (bgVolumeSet w v)
  then show ?case
    by (simp add: setBackgroundMusicVolume_keeps queueNonPriority_def)
next
  case (bgDuckingSet w d)
  then show ?case
    by (simp add: setBackgroundMusicDucking_keeps queueNonPriority_def)
next
  case (cleaned w)
  show ?case
    by (simp add: cleanup_eq volumesInRange_def queueNonPriority_def initialBgMusic_def)
next
  case (ended w e h)
  then show ?case by (simp add: endedEvent_keeps)
next
  case (hidden w)
  then show ?case
    by (simp add: visibilityHidden_keeps volumesInRange_def queueNonPriority_def)
next
  case (advanced w h t)
  then show ?case
    by (simp add: playbackAdvances_def volumesInRange_def queueNonPriority_def)
next
  case (touched w h b v)
  then show ?case by (simp add: volumesInRange_def queueNonPriority_def)
qed

section \<open>The scenario states\<close>

lemmas scenario_defs =
  initialWorld_def initialBgMusic_def initialMetadata_def idleAudio_def idleStore_def
  noOptions_def priorityOptions_def queueOptions_def desktop_def failingDevice_def

lemmas op_defs =
  playAudio_def hasPriorityAudio_def stopAudio_def cleanupEventListeners_def setAudio_def
  duckBackgroundMusic_def configureAudio_def assignVolume_def mediaPlay_def
  playBackgroundMusic_def clamp01_def Let_def


lemma scenarios_reachable:
  "reachable priorityPlaying"
  "reachable bgPlaying"
  "reachable bgDucked"
  "reachable bgDuckedLater"
  "reachable bgDuckedStopped"
  "reachable bgDuckedNoSound"
  "reachable queuedWhilePlaying"
  "reachable completionReady"
  "reachable bedRestartFailed"
  "reachable slotHolderAsBed"
  "reachable bedAsPriority"
  "reachable bedDequeued"
  "reachable priorityUnloaded"
  "reachable twoOverlapping"
  unfolding priorityPlaying_def bgPlaying_def bgDucked_def bgDuckedLater_def
    bgDuckedStopped_def bgDuckedNoSound_def queuedWhilePlaying_def completionReady_def
    bedRestartFailed_def slotHolderAsBed_def prioritySlotStopped_def bedAsPriority_def
    bedDequeued_def bedQueued_def priorityUnloaded_def bgPlayingUnloaded_def
    twoOverlapping_def firstServed_def twoQueued_def
  by (intro reachable.intros)+

lemma priorityPlaying_eval:
  "priorityAudioRef priorityPlaying = Some 3"
  "previousAudioRef priorityPlaying = Some 3"
  "priorityQueueRef priorityPlaying = []"
  "paused (audios priorityPlaying 3) = False"
  "currentTime (audios priorityPlaying 3) = 0"
  "duration (audios priorityPlaying 3) = Some 10"
  by (simp_all add: priorityPlaying_def scenario_defs op_defs)

lemma bgPlaying_eval:
  "bgMusicRef bgPlaying =
     \<lparr>audioRef = Some 2, volume_bg = 4 / 5, isPlaying = True, originalVolume = 4 / 5,
      enableDucking = True\<rparr>"
  "priorityAudioRef bgPlaying = None"
  "previousAudioRef bgPlaying = None"
  "priorityQueueRef bgPlaying = []"
  "volume (audios bgPlaying 2) = 4 / 5"
  "paused (audios bgPlaying 2) = False"
  by (simp_all add: bgPlaying_def scenario_defs op_defs)

lemma bgDucked_eval:
  "bgMusicRef bgDucked =
     \<lparr>audioRef = Some 2, volume_bg = 4 / 5, isPlaying = True, originalVolume = 4 / 5,
      enableDucking = True\<rparr>"
  "priorityAudioRef bgDucked = Some 3"
  "previousAudioRef bgDucked = Some 3"
  "priorityQueueRef bgDucked = []"
  "volume (audios bgDucked 2) = 4 / 25"
  "paused (audios bgDucked 3) = False"
  "currentTime (audios bgDucked 3) = 0"
  "duration (audios bgDucked 3) = Some 10"
  by (simp_all add: bgDucked_def bgPlaying_def scenario_defs op_defs)

lemma bgDuckedLater_eval:
  "bgMusicRef bgDuckedLater =
     \<lparr>audioRef = Some 2, volume_bg = 4 / 5, isPlaying = True, originalVolume = 4 / 5,
      enableDucking = True\<rparr>"
  "priorityAudioRef bgDuckedLater = Some 3"
  "previousAudioRef bgDuckedLater = Some 3"
  "priorityQueueRef bgDuckedLater = []"
  "volume (audios bgDuckedLater 2) = 4 / 25"
  "paused (audios bgDuckedLater 2) = False"
  "currentTime (audios bgDuckedLater 2) = 7"
  "paused (audios bgDuckedLater 3) = False"
  "currentTime (audios bgDuckedLater 3) = 4"
  "duration (audios bgDuckedLater 3) = Some 10"
  by (simp_all add: bgDuckedLater_def playbackAdvances_def bgDucked_def bgPlaying_def
        scenario_defs op_defs)



lemma queuedWhilePlaying_eval:
  "priorityQueueRef queuedWhilePlaying = [(4, queueOptions)]"
  "previousAudioRef queuedWhilePlaying = Some 3"
  "priorityAudioRef queuedWhilePlaying = Some 3"
  "audioRef (bgMusicRef queuedWhilePlaying) = None"
  "paused (audios queuedWhilePlaying 4) = False"
  "paused (audios queuedWhilePlaying 3) = False"
  by (simp_all add: queuedWhilePlaying_def scenario_defs op_defs)








section \<open>A request blocked by a priority sound\<close>

text \<open>
  C1. When the priority slot holds an element that is not paused and whose position is
  strictly before its duration, and the request sets neither \<open>priority\<close> nor
  \<open>ignorePriority\<close>, then \<open>playAudio\<close> returns \<open>false\<close> and the state it leaves is
  the state it found, but for the request appended at the back of the queue when
  \<open>queueIfBlocked\<close> is set: no element is touched, so no playback starts, and without
  \<open>queueIfBlocked\<close> the queue is as it was.
\<close>

theorem playAudio_blocked:
  assumes "priorityAudioRef w = Some p"
    and "\<not> paused (audios w p)"
    and "duration (audios w p) = Some d"
    and "currentTime (audios w p) < d"
    and "priority options \<noteq> Some True"
    and "ignorePriority options \<noteq> Some True"
  shows "playAudio e (Some h) options w =
           (False,
            if queueIfBlocked options = Some True
            then w\<lparr>priorityQueueRef := priorityQueueRef w @ [(h, options)]\<rparr>
            else w)"
proof -
  have "hasPriorityAudio w"
    using assms(1-4) by (simp add: hasPriorityAudio_def)
  moreover have "\<not> withDefault False (priority options)"
    using assms(5) by (cases "priority options") auto
  moreover have "\<not> withDefault False (ignorePriority options)"
    using assms(6) by (cases "ignorePriority options") auto
  moreover have "withDefault False (queueIfBlocked options) = (queueIfBlocked options = Some True)"
    by (cases "queueIfBlocked options") auto
  ultimately show ?thesis
    by (simp add: playAudio_unfold blocked_def)
qed

text \<open>
  C1 at a concrete input: while element 3 plays with priority, a request for element 4
  with \<open>queueIfBlocked\<close> is queued and one with no options is dropped.
\<close>

theorem playAudio_blocked_witness:
  "priorityAudioRef priorityPlaying = Some 3 \<and>
   \<not> paused (audios priorityPlaying 3) \<and>
   duration (audios priorityPlaying 3) = Some 10 \<and>
   currentTime (audios priorityPlaying 3) < 10 \<and>
   priority queueOptions \<noteq> Some True \<and>
   ignorePriority queueOptions \<noteq> Some True \<and>
   playAudio desktop (Some 4) queueOptions priorityPlaying =
     (False, priorityPlaying\<lparr>priorityQueueRef := [(4, queueOptions)]\<rparr>) \<and>
   playAudio desktop (Some 4) noOptions priorityPlaying = (False, priorityPlaying)"
proof -
  have a: "priorityAudioRef priorityPlaying = Some 3"
    and b: "\<not> paused (audios priorityPlaying 3)"
    and c: "duration (audios priorityPlaying 3) = Some 10"
    and d: "currentTime (audios priorityPlaying 3) < 10"
    by (simp_all add: priorityPlaying_eval)
  have e: "priority queueOptions \<noteq> Some True" "ignorePriority queueOptions \<noteq> Some True"
    and f: "priority noOptions \<noteq> Some True" "ignorePriority noOptions \<noteq> Some True"
    and g: "queueIfBlocked queueOptions = Some True" "queueIfBlocked noOptions \<noteq> Some True"
    by (simp_all add: queueOptions_def noOptions_def)
  show ?thesis
    using playAudio_blocked [OF a b c d e, of desktop 4]
      playAudio_blocked [OF a b c d f, of desktop 4] a b c d e g
    by (simp add: priorityPlaying_eval)
qed

section \<open>The previous slot\<close>

text \<open>
  C4 asks that a priority play, and a play whose start fails, leave the previous slot as it
  was. The code writes the slot at line 397, for every admitted request and before
  \<open>play()\<close> is called. From a fresh hook, \<open>playAudio(3, {priority: true})\<close> succeeds and
  leaves element 3 in the previous slot; \<open>playAudio(4, {})\<close> on a device that rejects
  \<open>play()\<close> returns \<open>false\<close> and leaves element 4 there.
\<close>

theorem previous_slot_takes_priority_handle:
  "previousAudioRef (initialWorld idleStore) = None \<and>
   playAudio desktop (Some 3) priorityOptions (initialWorld idleStore) = (True, priorityPlaying) \<and>
   previousAudioRef priorityPlaying = Some 3 \<and>
   fst (playAudio failingDevice (Some 4) noOptions (initialWorld idleStore)) = False \<and>
   previousAudioRef (snd (playAudio failingDevice (Some 4) noOptions (initialWorld idleStore)))
     = Some 4"
  by (simp add: priorityPlaying_def scenario_defs op_defs)

section \<open>The volume of a played element\<close>

text \<open>
  C5 asks that the requested volume be clamped to the range 0 to 1 before it is applied.
  \<open>playAudio\<close> assigns the requested volume as it is (line 362). For a request of 1.5 on an
  element at volume 0.5 the assignment raises, the \<open>catch\<close> returns \<open>false\<close>, the
  element keeps volume 0.5 and is never started; the clamped value would have been 1,
  which is what the exported \<open>setVolume\<close> applies for the same request.
\<close>

theorem playAudio_volume_not_clamped:
  "fst (playAudio desktop (Some 4) loudOptions (initialWorld quietStore)) = False \<and>
   volume (audios (snd (playAudio desktop (Some 4) loudOptions (initialWorld quietStore))) 4)
     = 1 / 2 \<and>
   paused (audios (snd (playAudio desktop (Some 4) loudOptions (initialWorld quietStore))) 4) \<and>
   clamp01 (3 / 2) = 1 \<and>
   volume (audios (setVolume (Some 4) (3 / 2) (initialWorld quietStore)) 4) = 1"
  by (simp add: quietStore_def loudOptions_def setVolume_def scenario_defs op_defs)

section \<open>A start that fails\<close>

text \<open>
  C7. When \<open>play()\<close> rejects, \<open>playAudio\<close> returns \<open>false\<close>, whatever the request
  and the state; its result is a value in every case, since the \<open>try\<close> encloses
  everything that can raise. For an admitted request on a handle \<open>h\<close> (not blocked, the
  audio context resumed, the recorded background volumes in range) the changes made before
  the start stay: with \<open>priority\<close> the slot holds \<open>h\<close>, the element the slot held
  before is stopped, and a playing bed with ducking enabled has its volume recorded as
  \<open>originalVolume\<close> and is ducked to a fifth of it; unless \<open>stopPrevious\<close> is
  \<open>false\<close>, the element of the previous slot is stopped.
\<close>

theorem playAudio_start_failure:
  assumes fails: "playFails e"
  shows "fst (playAudio e r options w) = False \<and>
    (r = Some h \<and> \<not> blocked options w \<and> \<not> (hasAudioContext e \<and> resumeFails e) \<and>
     volumesInRange w \<longrightarrow>
      (priority options = Some True \<longrightarrow>
         priorityAudioRef (snd (playAudio e r options w)) = Some h \<and>
         (priorityAudioRef w = Some p \<longrightarrow> stopped (audios (snd (playAudio e r options w)) p)) \<and>
         (audioRef (bgMusicRef w) = Some m \<and> isPlaying (bgMusicRef w) \<and>
          enableDucking (bgMusicRef w) \<longrightarrow>
            originalVolume (bgMusicRef (snd (playAudio e r options w))) = volume_bg (bgMusicRef w) \<and>
            (m \<noteq> h \<longrightarrow>
               volume (audios (snd (playAudio e r options w)) m) = volume_bg (bgMusicRef w) * 0.2))) \<and>
      (stopPrevious options \<noteq> Some False \<and> previousAudioRef w = Some q \<longrightarrow>
         stopped (audios (snd (playAudio e r options w)) q)))"
proof -
  have first: "fst (playAudio e r options w) = False"
    using fails
    by (simp add: playAudio_def Let_def mediaPlay_def split: option.splits outcome.splits)
  have rest: ?thesis
    if r: "r = Some h" and adm: "\<not> blocked options w"
      and ctx: "\<not> (hasAudioContext e \<and> resumeFails e)" and rng: "volumesInRange w"
  proof -
    have sp: "stopPrevious options \<noteq> Some False \<Longrightarrow> withDefault True (stopPrevious options)"
      by (cases "stopPrevious options") auto
    obtain w1 where w1: "(if withDefault False (priority options) then claimPriority h w else Done w) = Done w1"
      using claimPriority_in_range [OF rng, of h] by (cases "withDefault False (priority options)") auto
    have eq: "playAudio e r options w = startPlayback e h options w1"
      using w1 by (simp add: r playAudio_admitted [OF adm ctx])
    have keep: "stopped (audios w1 x) \<Longrightarrow> stopped (audios (snd (startPlayback e h options w1)) x)" for x
      using fails
      by (cases "x = h")
         (simp_all add: stopped_def startPlayback_self_fails startPlayback_other stopAudio_audios)
    have prev: "previousAudioRef w1 = previousAudioRef w"
      using w1 claimPriority_Done_fields(2) [of h w w1]
      by (cases "withDefault False (priority options)") auto
    have 5: "stopPrevious options \<noteq> Some False \<and> previousAudioRef w = Some q \<Longrightarrow>
         stopped (audios (snd (playAudio e r options w)) q)"
      using fails sp
      by (cases "q = h")
         (simp_all add: eq prev stopped_def startPlayback_self_fails startPlayback_other
            stopAudio_audios)
    have pri: "priorityAudioRef (snd (playAudio e r options w)) = Some h \<and>
         (priorityAudioRef w = Some p \<longrightarrow> stopped (audios (snd (playAudio e r options w)) p)) \<and>
         (audioRef (bgMusicRef w) = Some m \<and> isPlaying (bgMusicRef w) \<and>
          enableDucking (bgMusicRef w) \<longrightarrow>
            originalVolume (bgMusicRef (snd (playAudio e r options w))) = volume_bg (bgMusicRef w) \<and>
            (m \<noteq> h \<longrightarrow>
               volume (audios (snd (playAudio e r options w)) m) = volume_bg (bgMusicRef w) * 0.2))"
      if "priority options = Some True"
    proof -
      from that w1 have c: "claimPriority h w = Done w1" by simp
      note f = claimPriority_Done_fields [OF c]
      have 2: "priorityAudioRef (snd (playAudio e r options w)) = Some h"
        by (simp add: eq f)
      have 3: "priorityAudioRef w = Some p \<Longrightarrow> stopped (audios (snd (playAudio e r options w)) p)"
        unfolding eq by (rule keep) (simp add: stopped_def f stopAudio_audios)
      have 4: "audioRef (bgMusicRef w) = Some m \<and> isPlaying (bgMusicRef w) \<and>
          enableDucking (bgMusicRef w) \<Longrightarrow>
            originalVolume (bgMusicRef (snd (playAudio e r options w))) = volume_bg (bgMusicRef w) \<and>
            (m \<noteq> h \<longrightarrow>
               volume (audios (snd (playAudio e r options w)) m) = volume_bg (bgMusicRef w) * 0.2)"
        using claimPriority_Done_ducked [OF c, of m]
        by (simp add: eq startPlayback_volume_other)
      show ?thesis using 2 3 4 by blast
    qed
    show ?thesis using first pri 5 by blast
  qed
  show ?thesis
  proof (cases "r = Some h \<and> \<not> blocked options w \<and> \<not> (hasAudioContext e \<and> resumeFails e) \<and>
     volumesInRange w")
    case True
    then show ?thesis using rest by blast
  next
    case False
    then show ?thesis using first by blast
  qed
qed

text \<open>
  C7 at a concrete input: over a ducked bed (element 2) and a playing priority sound
  (element 3), a priority request for element 5 on a device that rejects \<open>play()\<close>.
\<close>

theorem playAudio_start_failure_witness:
  "playFails failingDevice \<and>
   \<not> blocked priorityOptions bgDucked \<and>
   \<not> (hasAudioContext failingDevice \<and> resumeFails failingDevice) \<and>
   volumesInRange bgDucked \<and>
   priority priorityOptions = Some True \<and>
   priorityAudioRef bgDucked = Some 3 \<and>
   audioRef (bgMusicRef bgDucked) = Some 2 \<and>
   isPlaying (bgMusicRef bgDucked) \<and>
   enableDucking (bgMusicRef bgDucked) \<and>
   stopPrevious priorityOptions \<noteq> Some False \<and>
   previousAudioRef bgDucked = Some 3 \<and>
   fst (playAudio failingDevice (Some 5) priorityOptions bgDucked) = False \<and>
   priorityAudioRef (snd (playAudio failingDevice (Some 5) priorityOptions bgDucked)) = Some 5 \<and>
   stopped (audios (snd (playAudio failingDevice (Some 5) priorityOptions bgDucked)) 3) \<and>
   originalVolume (bgMusicRef (snd (playAudio failingDevice (Some 5) priorityOptions bgDucked)))
     = 4 / 5 \<and>
   volume (audios (snd (playAudio failingDevice (Some 5) priorityOptions bgDucked)) 2) = 4 / 25"
proof -
  have h: "playFails failingDevice"
    "\<not> blocked priorityOptions bgDucked"
    "\<not> (hasAudioContext failingDevice \<and> resumeFails failingDevice)"
    "volumesInRange bgDucked"
    "priority priorityOptions = Some True"
    "priorityAudioRef bgDucked = Some 3"
    "audioRef (bgMusicRef bgDucked) = Some 2"
    "isPlaying (bgMusicRef bgDucked)"
    "enableDucking (bgMusicRef bgDucked)"
    "stopPrevious priorityOptions \<noteq> Some False"
    "previousAudioRef bgDucked = Some 3"
    by (simp_all add: bgDucked_eval blocked_def volumesInRange_def failingDevice_def
          priorityOptions_def noOptions_def)
  show ?thesis
    using playAudio_start_failure [OF h(1), of "Some 5" priorityOptions bgDucked 5 3 2 3] h
    by (simp add: bgDucked_eval)
qed

section \<open>Stopping rewinds\<close>

text \<open>
  C8. Every stop the hook makes goes through \<open>stopAudio\<close>, which pauses the element and
  sets its position to 0. So after an admitted \<open>playAudio\<close> the element that was in the
  previous slot (unless \<open>stopPrevious\<close> is \<open>false\<close>) and, for a priority request, the
  element that was in the priority slot are at position 0, and paused unless they are the
  element being played; after \<open>stopBackgroundMusic\<close> the bed is paused at 0; after
  \<open>cleanup\<close> the elements of the previous slot, the priority slot and the bed are
  paused at 0.
\<close>

theorem internal_stops_rewind:
  "stopped (audios (stopAudio (Some x) w) x) \<and>
   (\<not> blocked options w \<and> \<not> (hasAudioContext e \<and> resumeFails e) \<and> volumesInRange w \<longrightarrow>
      (stopPrevious options \<noteq> Some False \<and> previousAudioRef w = Some q \<longrightarrow>
         currentTime (audios (snd (playAudio e (Some h) options w)) q) = 0 \<and>
         (q \<noteq> h \<longrightarrow> paused (audios (snd (playAudio e (Some h) options w)) q))) \<and>
      (priority options = Some True \<and> priorityAudioRef w = Some p \<longrightarrow>
         currentTime (audios (snd (playAudio e (Some h) options w)) p) = 0 \<and>
         (p \<noteq> h \<longrightarrow> paused (audios (snd (playAudio e (Some h) options w)) p)))) \<and>
   (audioRef (bgMusicRef w) = Some m \<longrightarrow> stopped (audios (stopBackgroundMusic w) m)) \<and>
   (previousAudioRef w = Some c \<or> priorityAudioRef w = Some c \<or>
    audioRef (bgMusicRef w) = Some c \<longrightarrow> stopped (audios (cleanup w) c))"
proof -
  have a: "stopped (audios (stopAudio (Some x) w) x)"
    by (rule stopAudio_stopped)
  have c: "audioRef (bgMusicRef w) = Some m \<Longrightarrow> stopped (audios (stopBackgroundMusic w) m)"
    by (simp add: stopBackgroundMusic_eq stopAudio_audios stopped_def)
  have d: "previousAudioRef w = Some c \<or> priorityAudioRef w = Some c \<or>
    audioRef (bgMusicRef w) = Some c \<Longrightarrow> stopped (audios (cleanup w) c)"
    by (auto simp: cleanup_eq stopAudio_audios stopped_def)
  have b: "(stopPrevious options \<noteq> Some False \<and> previousAudioRef w = Some q \<longrightarrow>
         currentTime (audios (snd (playAudio e (Some h) options w)) q) = 0 \<and>
         (q \<noteq> h \<longrightarrow> paused (audios (snd (playAudio e (Some h) options w)) q))) \<and>
      (priority options = Some True \<and> priorityAudioRef w = Some p \<longrightarrow>
         currentTime (audios (snd (playAudio e (Some h) options w)) p) = 0 \<and>
         (p \<noteq> h \<longrightarrow> paused (audios (snd (playAudio e (Some h) options w)) p)))"
    if adm: "\<not> blocked options w" and ctx: "\<not> (hasAudioContext e \<and> resumeFails e)"
      and rng: "volumesInRange w"
  proof -
    have sp: "stopPrevious options \<noteq> Some False \<Longrightarrow> withDefault True (stopPrevious options)"
      by (cases "stopPrevious options") auto
    obtain w1 where w1: "(if withDefault False (priority options) then claimPriority h w else Done w) = Done w1"
      using claimPriority_in_range [OF rng, of h] by (cases "withDefault False (priority options)") auto
    have eq: "playAudio e (Some h) options w = startPlayback e h options w1"
      using w1 by (simp add: playAudio_admitted [OF adm ctx])
    have prev: "previousAudioRef w1 = previousAudioRef w"
      using w1 claimPriority_Done_fields(2) [of h w w1]
      by (cases "withDefault False (priority options)") auto
    have 1: "stopPrevious options \<noteq> Some False \<and> previousAudioRef w = Some q \<Longrightarrow>
         currentTime (audios (snd (playAudio e (Some h) options w)) q) = 0 \<and>
         (q \<noteq> h \<longrightarrow> paused (audios (snd (playAudio e (Some h) options w)) q))"
      using sp by (simp add: eq startPlayback_rewound startPlayback_paused_other prev)
    have 2: "currentTime (audios (snd (playAudio e (Some h) options w)) p) = 0 \<and>
         (p \<noteq> h \<longrightarrow> paused (audios (snd (playAudio e (Some h) options w)) p))"
      if pr: "priority options = Some True" and sl: "priorityAudioRef w = Some p"
    proof -
      from pr w1 have cp: "claimPriority h w = Done w1" by simp
      have "currentTime (audios w1 p) = 0" "paused (audios w1 p)"
        using claimPriority_Done_fields(11,12) [OF cp, of p] sl
        by (simp_all add: stopAudio_audios)
      then show ?thesis
        by (simp add: eq startPlayback_rewound startPlayback_paused_other)
    qed
    show ?thesis using 1 2 by blast
  qed
  show ?thesis using a b c d by blast
qed

text \<open>
  C8 at a concrete input: the bed at second 7 and the priority sound at second 4 are both
  back at 0 after a new priority request, \<open>stopBackgroundMusic\<close> or \<open>cleanup\<close>.
\<close>

theorem internal_stops_rewind_witness:
  "\<not> blocked priorityOptions bgDuckedLater \<and>
   \<not> (hasAudioContext desktop \<and> resumeFails desktop) \<and>
   volumesInRange bgDuckedLater \<and>
   stopPrevious priorityOptions \<noteq> Some False \<and>
   previousAudioRef bgDuckedLater = Some 3 \<and>
   priority priorityOptions = Some True \<and>
   priorityAudioRef bgDuckedLater = Some 3 \<and>
   audioRef (bgMusicRef bgDuckedLater) = Some 2 \<and>
   currentTime (audios bgDuckedLater 3) = 4 \<and>
   currentTime (audios bgDuckedLater 2) = 7 \<and>
   stopped (audios (stopAudio (Some 3) bgDuckedLater) 3) \<and>
   currentTime (audios (snd (playAudio desktop (Some 5) priorityOptions bgDuckedLater)) 3) = 0 \<and>
   paused (audios (snd (playAudio desktop (Some 5) priorityOptions bgDuckedLater)) 3) \<and>
   stopped (audios (stopBackgroundMusic bgDuckedLater) 2) \<and>
   stopped (audios (cleanup bgDuckedLater) 2) \<and>
   stopped (audios (cleanup bgDuckedLater) 3)"
proof -
  have h: "\<not> blocked priorityOptions bgDuckedLater"
    "\<not> (hasAudioContext desktop \<and> resumeFails desktop)"
    "volumesInRange bgDuckedLater"
    "stopPrevious priorityOptions \<noteq> Some False"
    "previousAudioRef bgDuckedLater = Some 3"
    "priority priorityOptions = Some True"
    "priorityAudioRef bgDuckedLater = Some 3"
    "audioRef (bgMusicRef bgDuckedLater) = Some 2"
    "currentTime (audios bgDuckedLater 3) = 4"
    "currentTime (audios bgDuckedLater 2) = 7"
    by (simp_all add: bgDuckedLater_eval blocked_def volumesInRange_def desktop_def
          priorityOptions_def noOptions_def)
  show ?thesis
    using internal_stops_rewind [of 3 bgDuckedLater priorityOptions desktop 3 5 3 2 2]
      internal_stops_rewind [of 3 bgDuckedLater priorityOptions desktop 3 5 3 2 3] h
    by simp
qed

section \<open>Background music\<close>

text \<open>
  C9. When \<open>play()\<close> rejects in \<open>playBackgroundMusic\<close>, the recorded background state
  is the one from before the call, so \<open>getBackgroundMusicState\<close> reports the old volume,
  original volume, ducking flag and \<open>isPlaying\<close>; the track that was recorded has been
  stopped all the same, and the new element, if it was paused, still is.
\<close>

theorem playBackgroundMusic_start_failure:
  assumes "playFails e"
  shows "bgMusicRef (playBackgroundMusic e r v d w) = bgMusicRef w \<and>
         getBackgroundMusicState (playBackgroundMusic e r v d w) = getBackgroundMusicState w \<and>
         (r = Some h \<and> audioRef (bgMusicRef w) = Some m \<longrightarrow>
            stopped (audios (playBackgroundMusic e r v d w) m)) \<and>
         (r = Some h \<and> paused (audios w h) \<longrightarrow> paused (audios (playBackgroundMusic e r v d w) h))"
  using playBackgroundMusic_fails [OF assms, of r v d w]
  by (auto simp: getBackgroundMusicState_def stopped_def stopAudio_audios)

text \<open>
  C9 at a concrete input: the bed (element 2) plays at 0.8; starting element 6 as the new
  bed fails. The state still reports a playing track at 0.8, and element 2 is stopped.
\<close>

theorem playBackgroundMusic_start_failure_witness:
  "playFails failingDevice \<and>
   audioRef (bgMusicRef bgPlaying) = Some 2 \<and>
   paused (audios bgPlaying 6) \<and>
   \<not> paused (audios bgPlaying 2) \<and>
   getBackgroundMusicState
     (playBackgroundMusic failingDevice (Some 6) (Some (1 / 2)) (Some False) bgPlaying)
     = (True, 4 / 5, 4 / 5, True) \<and>
   stopped (audios (playBackgroundMusic failingDevice (Some 6) (Some (1 / 2)) (Some False) bgPlaying) 2) \<and>
   paused (audios (playBackgroundMusic failingDevice (Some 6) (Some (1 / 2)) (Some False) bgPlaying) 6)"
proof -
  have h: "playFails failingDevice"
    "audioRef (bgMusicRef bgPlaying) = Some 2"
    "paused (audios bgPlaying 6)"
    "\<not> paused (audios bgPlaying 2)"
    "getBackgroundMusicState bgPlaying = (True, 4 / 5, 4 / 5, True)"
    by (simp_all add: bgPlaying_eval failingDevice_def getBackgroundMusicState_def)
       (simp add: bgPlaying_def scenario_defs op_defs)
  show ?thesis
    using playBackgroundMusic_start_failure [OF h(1), of "Some 6" "Some (1 / 2)" "Some False" bgPlaying 6 2] h
    by simp
qed

text \<open>
  C10. With no track recorded \<open>stopBackgroundMusic\<close> does nothing. With a track \<open>m\<close>
  recorded it stops the element and sets \<open>isPlaying\<close> to \<open>false\<close>; the recorded
  element, volume, original volume and ducking flag are as before. The track is therefore
  still the target of the two setters: \<open>setBackgroundMusicVolume\<close> records the clamped
  volume and applies it to \<open>m\<close>, ducked when a priority sound is audible and ducking is
  enabled, and \<open>setBackgroundMusicDucking\<close> records the flag and, while a priority sound
  is audible, applies the original volume or a fifth of it to \<open>m\<close>.
\<close>

theorem stopBackgroundMusic_frame:
  "(audioRef (bgMusicRef w) = None \<longrightarrow> stopBackgroundMusic w = w) \<and>
   (audioRef (bgMusicRef w) = Some m \<longrightarrow>
      stopBackgroundMusic w =
        (stopAudio (Some m) w)\<lparr>bgMusicRef := (bgMusicRef w)\<lparr>isPlaying := False\<rparr>\<rparr> \<and>
      \<not> threw (setBackgroundMusicVolume v (stopBackgroundMusic w)) \<and>
      originalVolume (bgMusicRef (final (setBackgroundMusicVolume v (stopBackgroundMusic w))))
        = clamp01 v \<and>
      volume (audios (final (setBackgroundMusicVolume v (stopBackgroundMusic w))) m) =
        (if hasPriorityAudio (stopBackgroundMusic w) \<and> enableDucking (bgMusicRef w)
         then clamp01 v * 0.2 else clamp01 v) \<and>
      enableDucking (bgMusicRef (final (setBackgroundMusicDucking d (stopBackgroundMusic w)))) = d \<and>
      (hasPriorityAudio (stopBackgroundMusic w) \<and> volumesInRange w \<longrightarrow>
         \<not> threw (setBackgroundMusicDucking d (stopBackgroundMusic w)) \<and>
         volume (audios (final (setBackgroundMusicDucking d (stopBackgroundMusic w))) m) =
           (if d then originalVolume (bgMusicRef w) * 0.2 else originalVolume (bgMusicRef w))))"
proof -
  have none: "audioRef (bgMusicRef w) = None \<Longrightarrow> stopBackgroundMusic w = w"
    by (simp add: stopBackgroundMusic_eq)
  have some: "stopBackgroundMusic w =
        (stopAudio (Some m) w)\<lparr>bgMusicRef := (bgMusicRef w)\<lparr>isPlaying := False\<rparr>\<rparr> \<and>
      \<not> threw (setBackgroundMusicVolume v (stopBackgroundMusic w)) \<and>
      originalVolume (bgMusicRef (final (setBackgroundMusicVolume v (stopBackgroundMusic w))))
        = clamp01 v \<and>
      volume (audios (final (setBackgroundMusicVolume v (stopBackgroundMusic w))) m) =
        (if hasPriorityAudio (stopBackgroundMusic w) \<and> enableDucking (bgMusicRef w)
         then clamp01 v * 0.2 else clamp01 v) \<and>
      enableDucking (bgMusicRef (final (setBackgroundMusicDucking d (stopBackgroundMusic w)))) = d \<and>
      (hasPriorityAudio (stopBackgroundMusic w) \<and> volumesInRange w \<longrightarrow>
         \<not> threw (setBackgroundMusicDucking d (stopBackgroundMusic w)) \<and>
         volume (audios (final (setBackgroundMusicDucking d (stopBackgroundMusic w))) m) =
           (if d then originalVolume (bgMusicRef w) * 0.2 else originalVolume (bgMusicRef w)))"
    if m: "audioRef (bgMusicRef w) = Some m"
  proof -
    let ?s = "stopBackgroundMusic w"
    have s: "?s = (stopAudio (Some m) w)\<lparr>bgMusicRef := (bgMusicRef w)\<lparr>isPlaying := False\<rparr>\<rparr>"
      using m by (simp add: stopBackgroundMusic_eq)
    have ref: "audioRef (bgMusicRef ?s) = Some m"
      and duck: "enableDucking (bgMusicRef ?s) = enableDucking (bgMusicRef w)"
      and orig: "originalVolume (bgMusicRef ?s) = originalVolume (bgMusicRef w)"
      using m by (simp_all add: s)
    note v = setBackgroundMusicVolume_eq [OF ref, of v]
    have a: "\<not> threw (setBackgroundMusicVolume v ?s)"
      "originalVolume (bgMusicRef (final (setBackgroundMusicVolume v ?s))) = clamp01 v"
      "volume (audios (final (setBackgroundMusicVolume v ?s)) m) =
        (if hasPriorityAudio ?s \<and> enableDucking (bgMusicRef w)
         then clamp01 v * 0.2 else clamp01 v)"
      by (simp_all add: v duck)
    have b: "enableDucking (bgMusicRef (final (setBackgroundMusicDucking d ?s))) = d"
      by (simp add: setBackgroundMusicDucking_flag ref)
    have c: "\<not> threw (setBackgroundMusicDucking d ?s) \<and>
         volume (audios (final (setBackgroundMusicDucking d ?s)) m) =
           (if d then originalVolume (bgMusicRef w) * 0.2 else originalVolume (bgMusicRef w))"
      if "hasPriorityAudio ?s" "volumesInRange w"
    proof -
      have "0 \<le> originalVolume (bgMusicRef ?s)" "originalVolume (bgMusicRef ?s) \<le> 1"
        using that(2) by (simp_all add: orig volumesInRange_def)
      from setBackgroundMusicDucking_eq [OF ref this, of d] that(1) show ?thesis
        by (simp add: orig)
    qed
    show ?thesis using s a b c by blast
  qed
  show ?thesis using none some by blast
qed

text \<open>
  C10 at concrete inputs: on a fresh hook the call changes nothing; on the ducked bed it
  clears \<open>isPlaying\<close> alone, after which \<open>setBackgroundMusicVolume(0.5)\<close> sets the
  stopped element to 0.1 and \<open>setBackgroundMusicDucking(false)\<close> sets it to 0.8.
\<close>

theorem stopBackgroundMusic_frame_witness:
  "audioRef (bgMusicRef (initialWorld idleStore)) = None \<and>
   stopBackgroundMusic (initialWorld idleStore) = initialWorld idleStore \<and>
   audioRef (bgMusicRef bgDuckedLater) = Some 2 \<and>
   hasPriorityAudio (stopBackgroundMusic bgDuckedLater) \<and>
   volumesInRange bgDuckedLater \<and>
   bgMusicRef (stopBackgroundMusic bgDuckedLater) =
     \<lparr>audioRef = Some 2, volume_bg = 4 / 5, isPlaying = False, originalVolume = 4 / 5,
      enableDucking = True\<rparr> \<and>
   volume (audios (stopBackgroundMusic bgDuckedLater) 2) = 4 / 25 \<and>
   volume (audios (final (setBackgroundMusicVolume (1 / 2) (stopBackgroundMusic bgDuckedLater))) 2)
     = 1 / 10 \<and>
   volume (audios (final (setBackgroundMusicDucking False (stopBackgroundMusic bgDuckedLater))) 2)
     = 4 / 5"
proof -
  have h: "audioRef (bgMusicRef (initialWorld idleStore)) = None"
    "audioRef (bgMusicRef bgDuckedLater) = Some 2"
    "volumesInRange bgDuckedLater"
    by (simp_all add: bgDuckedLater_eval volumesInRange_def initialWorld_def initialBgMusic_def)
  have p: "hasPriorityAudio (stopBackgroundMusic bgDuckedLater)"
    by (simp add: stopBackgroundMusic_eq hasPriorityAudio_def bgDuckedLater_eval stopAudio_audios)
  have v: "volume (audios (stopBackgroundMusic bgDuckedLater) 2) = 4 / 25"
    "bgMusicRef (stopBackgroundMusic bgDuckedLater) =
       \<lparr>audioRef = Some 2, volume_bg = 4 / 5, isPlaying = False, originalVolume = 4 / 5,
        enableDucking = True\<rparr>"
    by (simp_all add: stopBackgroundMusic_eq bgDuckedLater_eval stopAudio_audios)
  have t0: "stopBackgroundMusic (initialWorld idleStore) = initialWorld idleStore"
    using stopBackgroundMusic_frame [of "initialWorld idleStore" 2 "1 / 2" False] h(1)
    by blast
  have t1: "volume (audios (final (setBackgroundMusicVolume (1 / 2)
                (stopBackgroundMusic bgDuckedLater))) 2) =
        (if hasPriorityAudio (stopBackgroundMusic bgDuckedLater) \<and>
            enableDucking (bgMusicRef bgDuckedLater)
         then clamp01 (1 / 2) * 0.2 else clamp01 (1 / 2))"
    and t2: "volume (audios (final (setBackgroundMusicDucking False
                (stopBackgroundMusic bgDuckedLater))) 2) =
           (if False then originalVolume (bgMusicRef bgDuckedLater) * 0.2
            else originalVolume (bgMusicRef bgDuckedLater))"
    using stopBackgroundMusic_frame [of bgDuckedLater 2 "1 / 2" False] h(2,3) p
    by blast+
  show ?thesis
    using t0 t1 t2 h p v by (simp add: bgDuckedLater_eval clamp01_def)
qed

section \<open>Teardown\<close>

text \<open>
  C6 says that \<open>cleanup\<close> stops every queued entry. It does not: for the queue it only
  calls \<open>cleanupEventListeners\<close>. In the state reached by \<open>playAudio(4, {})\<close>,
  \<open>playAudio(3, {priority: true, stopPrevious: false})\<close> and
  \<open>playAudio(4, {queueIfBlocked: true})\<close>, element 4 is queued and playing, and it is
  still playing after \<open>cleanup\<close>.
\<close>

theorem cleanup_leaves_queued_playing:
  "priorityQueueRef queuedWhilePlaying = [(4, queueOptions)] \<and>
   \<not> paused (audios queuedWhilePlaying 4) \<and>
   \<not> paused (audios (cleanup queuedWhilePlaying) 4)"
  by (simp add: queuedWhilePlaying_eval cleanup_eq stopAudio_audios)

text \<open>
  C6 as the code has it. \<open>cleanup\<close> stops the elements of the previous slot, the
  priority slot and the background track, and leaves every other element, queued or not,
  as it is. It empties the queue and sets every cell to its initial value, so that
  \<open>getAudioMetadata\<close>, \<open>getBackgroundMusicState\<close> and \<open>hasPriorityAudio\<close> answer as
  on a fresh hook. A second \<open>cleanup\<close> changes nothing, and neither does \<open>cleanup\<close>
  on a fresh hook.
\<close>

theorem cleanup_resets:
  "(previousAudioRef w = Some c \<or> priorityAudioRef w = Some c \<or>
    audioRef (bgMusicRef w) = Some c \<longrightarrow> stopped (audios (cleanup w) c)) \<and>
   (previousAudioRef w \<noteq> Some c \<and> priorityAudioRef w \<noteq> Some c \<and>
    audioRef (bgMusicRef w) \<noteq> Some c \<longrightarrow> audios (cleanup w) c = audios w c) \<and>
   previousAudioRef (cleanup w) = None \<and>
   priorityAudioRef (cleanup w) = None \<and>
   bgMusicRef (cleanup w) = initialBgMusic \<and>
   priorityQueueRef (cleanup w) = [] \<and>
   audioMetadataRef (cleanup w) = initialMetadata \<and>
   getAudioMetadata (cleanup w) = getAudioMetadata (initialWorld st) \<and>
   getBackgroundMusicState (cleanup w) = getBackgroundMusicState (initialWorld st) \<and>
   hasPriorityAudio (cleanup w) = hasPriorityAudio (initialWorld st) \<and>
   \<not> hasPriorityAudio (cleanup w) \<and>
   cleanup (cleanup w) = cleanup w \<and>
   cleanup (initialWorld st) = initialWorld st"
proof -
  have a: "previousAudioRef w = Some c \<or> priorityAudioRef w = Some c \<or>
    audioRef (bgMusicRef w) = Some c \<Longrightarrow> stopped (audios (cleanup w) c)"
    by (auto simp: cleanup_eq stopAudio_audios stopped_def)
  have b: "previousAudioRef w \<noteq> Some c \<and> priorityAudioRef w \<noteq> Some c \<and>
    audioRef (bgMusicRef w) \<noteq> Some c \<Longrightarrow> audios (cleanup w) c = audios w c"
    by (simp add: cleanup_eq stopAudio_audios)
  have f: "previousAudioRef (cleanup w) = None" "priorityAudioRef (cleanup w) = None"
    "bgMusicRef (cleanup w) = initialBgMusic" "priorityQueueRef (cleanup w) = []"
    "audioMetadataRef (cleanup w) = initialMetadata"
    by (simp_all add: cleanup_eq)
  have q: "getAudioMetadata (cleanup w) = getAudioMetadata (initialWorld st)"
    "getBackgroundMusicState (cleanup w) = getBackgroundMusicState (initialWorld st)"
    "\<not> hasPriorityAudio (cleanup w)" "\<not> hasPriorityAudio (initialWorld st)"
    by (simp_all add: f getAudioMetadata_def getBackgroundMusicState_def hasPriorityAudio_def
          initialWorld_def)
  have i: "cleanup (cleanup w) = cleanup w"
    by (simp add: cleanup_eq [of "cleanup w"] f) (simp add: cleanup_eq initialBgMusic_def)
  have n: "cleanup (initialWorld st) = initialWorld st"
    by (simp add: cleanup_eq initialWorld_def initialBgMusic_def)
  show ?thesis using a b f q i n by blast
qed

text \<open>
  C6 as amended, at the same state: the priority element 3 is stopped, the queued element 4
  is untouched, the queue is empty, the background state is the initial one.
\<close>

theorem cleanup_resets_witness:
  "previousAudioRef queuedWhilePlaying = Some 3 \<and>
   previousAudioRef queuedWhilePlaying \<noteq> Some 4 \<and>
   priorityAudioRef queuedWhilePlaying \<noteq> Some 4 \<and>
   audioRef (bgMusicRef queuedWhilePlaying) \<noteq> Some 4 \<and>
   \<not> paused (audios queuedWhilePlaying 3) \<and>
   stopped (audios (cleanup queuedWhilePlaying) 3) \<and>
   audios (cleanup queuedWhilePlaying) 4 = audios queuedWhilePlaying 4 \<and>
   priorityQueueRef (cleanup queuedWhilePlaying) = [] \<and>
   getBackgroundMusicState (cleanup queuedWhilePlaying) = (False, 1, 1, True) \<and>
   cleanup (cleanup queuedWhilePlaying) = cleanup queuedWhilePlaying"
proof -
  have h: "previousAudioRef queuedWhilePlaying = Some 3"
    "previousAudioRef queuedWhilePlaying \<noteq> Some 4"
    "priorityAudioRef queuedWhilePlaying \<noteq> Some 4"
    "audioRef (bgMusicRef queuedWhilePlaying) \<noteq> Some 4"
    "\<not> paused (audios queuedWhilePlaying 3)"
    by (simp_all add: queuedWhilePlaying_eval)
  have g: "getBackgroundMusicState (initialWorld idleStore) = (False, 1, 1, True)"
    by (simp add: getBackgroundMusicState_def initialWorld_def initialBgMusic_def)
  show ?thesis
    using cleanup_resets [of queuedWhilePlaying 3 idleStore]
      cleanup_resets [of queuedWhilePlaying 4 idleStore] h g
    by simp
qed

section \<open>The end of a priority sound\<close>




section \<open>The applied background volume\<close>




end
